theory Spec2Isabelle
  imports Complex_Main "HOL-Library.Char_ord" "HOL-Library.List_Lexorder"
begin

section \<open>Conventions\<close>

text \<open>
  The embedding follows the C++ sources
  \<^verbatim>\<open>execution/types.hpp\<close>, \<^verbatim>\<open>execution/position_manager.cpp\<close>,
  \<^verbatim>\<open>risk/risk_manager.cpp\<close> and \<^verbatim>\<open>execution/execution_engine.cpp\<close>.

  \<^item> A \<^verbatim>\<open>double\<close> is a \<^typ>\<open>real\<close>: the arithmetic is the exact one, without rounding,
    infinities or NaN.
  \<^item> An \<^verbatim>\<open>int\<close> counter and an \<^verbatim>\<open>int64_t\<close> time stamp is an \<^typ>\<open>int\<close>; signed
    overflow is undefined behaviour in the source and is not modelled.
  \<^item> A \<^verbatim>\<open>std::string\<close> is a \<^typ>\<open>string\<close>, ordered byte-wise lexicographically.
  \<^item> A \<^verbatim>\<open>std::map<std::string, V>\<close> is the list of its entries in iteration order.
  \<^item> Every method runs under the mutex of its object, so a method is one atomic step:
    a function from the state before to the state after. Log output is not part of the state.
  \<^item> A reading of \<^verbatim>\<open>std::chrono::system_clock::now()\<close> is an argument of the function.
  \<^item> Of the execution engine, \<^verbatim>\<open>submit_order\<close>, \<^verbatim>\<open>on_fill\<close>, \<^verbatim>\<open>on_order_update\<close>,
    \<^verbatim>\<open>get_order_status\<close> and the registrations are modelled; \<^verbatim>\<open>cancel_order\<close>,
    \<^verbatim>\<open>modify_order\<close> and \<^verbatim>\<open>shutdown\<close> are not.
\<close>

section \<open>Domain types (execution/types.hpp)\<close>

datatype OrderSide = BUY | SELL

datatype OrderType = MARKET | LIMIT | STOP | STOP_LIMIT

datatype TimeInForce = DAY | GTC | IOC | FOK

datatype OrderStatus =
    PENDING | SUBMITTED | ACKNOWLEDGED | PARTIALLY_FILLED | FILLED
  | CANCELLED | REJECTED | ERROR | EXPIRED

record OrderRequest =
  req_order_id :: string
  req_instrument :: string
  req_side :: OrderSide
  req_type :: OrderType
  req_quantity :: real
  req_price :: real
  req_tif :: TimeInForce
  req_strategy_id :: string
  req_user_comment :: string
  req_timestamp_ns :: int
  req_stop_price :: "real option"

record OrderUpdate =
  upd_order_id :: string
  upd_status :: OrderStatus
  upd_filled_qty :: real
  upd_remaining_qty :: real
  upd_avg_fill_price :: real
  upd_reason :: string
  upd_timestamp_ns :: int
  upd_exchange_order_id :: "string option"

record Fill =
  fill_id :: string
  fill_order_id :: string
  fill_instrument :: string
  fill_side :: OrderSide
  fill_quantity :: real
  fill_price :: real
  fill_commission :: real
  fill_timestamp_ns :: int
  fill_exchange_trade_id :: "string option"

record Position =
  pos_instrument :: string
  pos_quantity :: real
  pos_entry_price :: real
  pos_unrealized_pnl :: real
  pos_realized_pnl :: real
  pos_last_update_ns :: int
  pos_num_fills_today :: int
  pos_total_commission :: real

record RiskCheckResult =
  res_allowed :: bool
  res_reason :: string
  res_reserved_capital :: real
  res_new_exposure :: real
  res_new_position_size :: real

section \<open>std::map with string keys\<close>

type_synonym 'v smap = "(string \<times> 'v) list"

text \<open>\<^verbatim>\<open>m.find(k)\<close>: the entry under \<open>k\<close>, or \<open>None\<close> for \<^verbatim>\<open>m.end()\<close>.\<close>

definition smap_find :: "string \<Rightarrow> 'v smap \<Rightarrow> 'v option" where
  "smap_find k m = map_of m k"

text \<open>\<^verbatim>\<open>m[k] = v\<close>: overwrite the entry under \<open>k\<close>, or insert it at its place in key order.\<close>

fun smap_put :: "string \<Rightarrow> 'v \<Rightarrow> 'v smap \<Rightarrow> 'v smap" where
  "smap_put k v [] = [(k, v)]"
| "smap_put k v ((k', v') # m) =
     (if k < k' then (k, v) # (k', v') # m
      else if k = k' then (k, v) # m
      else (k', v') # smap_put k v m)"

text \<open>\<^verbatim>\<open>m.erase(it)\<close> for the iterator found under \<open>k\<close>.\<close>

fun smap_erase :: "string \<Rightarrow> 'v smap \<Rightarrow> 'v smap" where
  "smap_erase k [] = []"
| "smap_erase k ((k', v') # m) = (if k = k' then m else (k', v') # smap_erase k m)"

text \<open>The class invariant of \<^verbatim>\<open>std::map\<close>: keys strictly increasing.\<close>

definition smap_ok :: "'v smap \<Rightarrow> bool" where
  "smap_ok m = sorted_wrt (<) (map fst m)"

section \<open>Position manager (execution/position_manager.cpp)\<close>

record PositionManager =
  positions :: "Position smap"
  total_realized_pnl :: real
  total_fills_today :: int

definition PositionManager_new :: PositionManager where
  "PositionManager_new = \<lparr>positions = [], total_realized_pnl = 0, total_fills_today = 0\<rparr>"

definition calculate_weighted_avg_price :: "real \<Rightarrow> real \<Rightarrow> real \<Rightarrow> real \<Rightarrow> real" where
  "calculate_weighted_avg_price current_qty current_entry fill_qty fill_px =
     (if \<bar>current_qty + fill_qty\<bar> < 1 / 10 ^ 8 then 0
      else
        let total_cost = current_qty * current_entry + fill_qty * fill_px;
            total_qty = current_qty + fill_qty
        in total_cost / total_qty)"

definition calculate_realized_pnl :: "real \<Rightarrow> real \<Rightarrow> real \<Rightarrow> real \<Rightarrow> real" where
  "calculate_realized_pnl position_qty entry_price fill_qty fill_px =
     (let qty_to_close = min \<bar>position_qty\<bar> \<bar>fill_qty\<bar>;
          reducing = (position_qty * fill_qty < 0)
      in if \<not> reducing then 0
         else if position_qty > 0 then qty_to_close * (fill_px - entry_price)
         else qty_to_close * (entry_price - fill_px))"

text \<open>The signed fill quantity of \<^verbatim>\<open>on_fill\<close>: \<^verbatim>\<open>(side == BUY ? 1.0 : -1.0) * quantity\<close>.\<close>

definition signed_fill_qty :: "Fill \<Rightarrow> real" where
  "signed_fill_qty fill = (if fill_side fill = BUY then 1 else -1) * fill_quantity fill"

text \<open>The branch of \<^verbatim>\<open>on_fill\<close> for an instrument that has no entry yet.\<close>

definition open_position :: "Fill \<Rightarrow> Position" where
  "open_position fill =
     \<lparr>pos_instrument = fill_instrument fill,
      pos_quantity = signed_fill_qty fill,
      pos_entry_price = fill_price fill,
      pos_unrealized_pnl = 0,
      pos_realized_pnl = 0,
      pos_last_update_ns = fill_timestamp_ns fill,
      pos_num_fills_today = 1,
      pos_total_commission = fill_commission fill\<rparr>"

text \<open>
  The branch of \<^verbatim>\<open>on_fill\<close> for an instrument that has an entry: the new entry and the
  amount added to the realized PnL (zero on the increasing branch, which does not touch it).
\<close>

definition apply_fill :: "Fill \<Rightarrow> Position \<Rightarrow> Position \<times> real" where
  "apply_fill fill pos =
     (let f = signed_fill_qty fill;
          same_direction = (pos_quantity pos * f > 0);
          (pos1, realized) =
            (if same_direction \<or> pos_quantity pos = 0 then
               (pos\<lparr>pos_entry_price :=
                      calculate_weighted_avg_price (pos_quantity pos) (pos_entry_price pos)
                        f (fill_price fill),
                    pos_quantity := pos_quantity pos + f\<rparr>, 0)
             else
               let realized =
                     calculate_realized_pnl (pos_quantity pos) (pos_entry_price pos)
                       f (fill_price fill);
                   old_qty = pos_quantity pos;
                   new_qty = pos_quantity pos + f;
                   pos' = pos\<lparr>pos_realized_pnl := pos_realized_pnl pos + realized,
                              pos_quantity := new_qty\<rparr>
               in if (old_qty > 0 \<and> new_qty < 0) \<or> (old_qty < 0 \<and> new_qty > 0)
                  then (pos'\<lparr>pos_entry_price := fill_price fill\<rparr>, realized)
                  else (pos', realized))
      in (pos1\<lparr>pos_last_update_ns := fill_timestamp_ns fill,
               pos_num_fills_today := pos_num_fills_today pos1 + 1,
               pos_total_commission := pos_total_commission pos1 + fill_commission fill\<rparr>,
          realized))"

definition pm_on_fill :: "Fill \<Rightarrow> PositionManager \<Rightarrow> PositionManager" where
  "pm_on_fill fill pm =
     (let pm1 = pm\<lparr>total_fills_today := total_fills_today pm + 1\<rparr>
      in case smap_find (fill_instrument fill) (positions pm1) of
           None \<Rightarrow>
             pm1\<lparr>positions := smap_put (fill_instrument fill) (open_position fill) (positions pm1)\<rparr>
         | Some pos \<Rightarrow>
             let (pos', realized) = apply_fill fill pos
             in pm1\<lparr>positions := smap_put (fill_instrument fill) pos' (positions pm1),
                    total_realized_pnl := total_realized_pnl pm1 + realized\<rparr>)"

definition get_position :: "string \<Rightarrow> PositionManager \<Rightarrow> Position" where
  "get_position instrument pm =
     (case smap_find instrument (positions pm) of
        Some pos \<Rightarrow> pos
      | None \<Rightarrow>
          \<lparr>pos_instrument = instrument, pos_quantity = 0, pos_entry_price = 0,
           pos_unrealized_pnl = 0, pos_realized_pnl = 0, pos_last_update_ns = 0,
           pos_num_fills_today = 0, pos_total_commission = 0\<rparr>)"

definition get_quantity :: "string \<Rightarrow> PositionManager \<Rightarrow> real" where
  "get_quantity instrument pm =
     (case smap_find instrument (positions pm) of Some pos \<Rightarrow> pos_quantity pos | None \<Rightarrow> 0)"

definition get_total_realized_pnl :: "PositionManager \<Rightarrow> real" where
  "get_total_realized_pnl pm = total_realized_pnl pm"

text \<open>
  The \<^verbatim>\<open>for\<close> statements of \<^verbatim>\<open>get_total_unrealized_pnl\<close> and \<^verbatim>\<open>get_total_exposure\<close>
  over the entries.
\<close>

fun unrealized_loop :: "real smap \<Rightarrow> Position smap \<Rightarrow> real \<Rightarrow> real" where
  "unrealized_loop prices [] total_unrealized = total_unrealized"
| "unrealized_loop prices ((instrument, pos) # rest) total_unrealized =
     (if \<bar>pos_quantity pos\<bar> < 1 / 10 ^ 8 then unrealized_loop prices rest total_unrealized
      else case smap_find instrument prices of
             Some px \<Rightarrow>
               unrealized_loop prices rest (total_unrealized + pos_quantity pos * (px - pos_entry_price pos))
           | None \<Rightarrow> unrealized_loop prices rest total_unrealized)"

definition get_total_unrealized_pnl :: "real smap \<Rightarrow> PositionManager \<Rightarrow> real" where
  "get_total_unrealized_pnl current_prices pm = unrealized_loop current_prices (positions pm) 0"

fun exposure_loop :: "real smap \<Rightarrow> Position smap \<Rightarrow> real \<Rightarrow> real" where
  "exposure_loop prices [] total_exposure = total_exposure"
| "exposure_loop prices ((instrument, pos) # rest) total_exposure =
     (if \<bar>pos_quantity pos\<bar> < 1 / 10 ^ 8 then exposure_loop prices rest total_exposure
      else case smap_find instrument prices of
             Some px \<Rightarrow> exposure_loop prices rest (total_exposure + \<bar>pos_quantity pos * px\<bar>)
           | None \<Rightarrow> exposure_loop prices rest total_exposure)"

definition get_total_exposure :: "real smap \<Rightarrow> PositionManager \<Rightarrow> real" where
  "get_total_exposure current_prices pm = exposure_loop current_prices (positions pm) 0"


section \<open>Rendering numbers (std::to_string)\<close>

text \<open>
  \<^verbatim>\<open>std::to_string(int)\<close> prints the decimal digits; \<^verbatim>\<open>std::to_string(double)\<close> prints as
  \<^verbatim>\<open>printf("%f")\<close> does: six digits after the point, rounded to nearest, ties to even.
\<close>

definition digit_char :: "nat \<Rightarrow> char" where
  "digit_char d = char_of (48 + d)"

function nat_digits :: "nat \<Rightarrow> string" where
  "nat_digits n = (if n < 10 then [digit_char n] else nat_digits (n div 10) @ [digit_char (n mod 10)])"
  by pat_completeness auto
termination
  by (relation "measure id") auto

definition int_to_string :: "int \<Rightarrow> string" where
  "int_to_string i = (if i < 0 then ''-'' @ nat_digits (nat (- i)) else nat_digits (nat i))"

definition round_half_even :: "real \<Rightarrow> int" where
  "round_half_even x =
     (let f = \<lfloor>x\<rfloor>; d = x - of_int f
      in if d < 1 / 2 then f else if 1 / 2 < d then f + 1 else if even f then f else f + 1)"

definition double_to_string :: "real \<Rightarrow> string" where
  "double_to_string x =
     (let n = nat (round_half_even (abs x * 10 ^ 6));
          frac = nat_digits (n mod 10 ^ 6)
      in (if x < 0 then ''-'' else '''') @ nat_digits (n div 10 ^ 6) @ ''.''
           @ replicate (6 - length frac) (CHR ''0'') @ frac)"

section \<open>Risk manager (risk/risk_manager.cpp)\<close>

record RiskLimits =
  max_position_size :: real
  max_total_exposure :: real
  max_single_position_pct :: real
  max_daily_loss :: real
  max_daily_loss_pct :: real
  max_drawdown_from_high :: real
  max_orders_per_minute :: int
  max_orders_per_day :: int
  max_order_size :: real
  bankroll :: real
  min_free_capital_pct :: real

text \<open>
  \<open>position_mgr\<close> is the pointer \<^verbatim>\<open>position_mgr_\<close>: \<open>False\<close> for \<^verbatim>\<open>nullptr\<close>, \<open>True\<close> when
  it points to the position manager. The state of that position manager at the time of a
  call is an argument of the functions that read it.
\<close>

record RiskManager =
  limits :: RiskLimits
  position_mgr :: bool
  daily_pnl :: real
  daily_high_pnl :: real
  daily_realized_pnl :: real
  orders_submitted_today :: int
  orders_filled_today :: int
  orders_rejected_today :: int
  orders_cancelled_today :: int
  recent_order_timestamps :: "int list"
  reserved_by_order :: "real smap"
  market_prices :: "real smap"
  halt_active :: bool
  halt_reason :: string

definition RiskManager_new :: "RiskLimits \<Rightarrow> RiskManager" where
  "RiskManager_new risk_limits =
     \<lparr>limits = risk_limits, position_mgr = False, daily_pnl = 0, daily_high_pnl = 0,
      daily_realized_pnl = 0, orders_submitted_today = 0, orders_filled_today = 0,
      orders_rejected_today = 0, orders_cancelled_today = 0, recent_order_timestamps = [],
      reserved_by_order = [], market_prices = [], halt_active = False, halt_reason = ''''\<rparr>"

definition calculate_order_value :: "OrderRequest \<Rightarrow> real \<Rightarrow> real" where
  "calculate_order_value order price = abs (req_quantity order * price)"

definition check_position_size_limit :: "string \<Rightarrow> real \<Rightarrow> RiskManager \<Rightarrow> bool" where
  "check_position_size_limit instrument new_qty rm = (abs new_qty \<le> max_position_size (limits rm))"

text \<open>The statement \<^verbatim>\<open>for (const auto& [oid, reserved] : reserved_by_order_) total_reserved += reserved\<close>.\<close>

definition total_reserved :: "RiskManager \<Rightarrow> real" where
  "total_reserved rm = fold (\<lambda>(oid, reserved) acc. acc + reserved) (reserved_by_order rm) 0"

definition check_exposure_limit :: "real \<Rightarrow> PositionManager \<Rightarrow> RiskManager \<Rightarrow> bool" where
  "check_exposure_limit additional_exposure pm rm =
     (let current_exposure =
            (if position_mgr rm then get_total_exposure (market_prices rm) pm else 0);
          new_total_exposure = current_exposure + total_reserved rm + additional_exposure
      in new_total_exposure \<le> max_total_exposure (limits rm))"

definition check_daily_loss_limit :: "RiskManager \<Rightarrow> bool" where
  "check_daily_loss_limit rm = (daily_pnl rm \<ge> - max_daily_loss (limits rm))"

text \<open>
  \<^verbatim>\<open>check_rate_limit\<close> at clock reading \<open>now_ns\<close>. The comparison
  \<^verbatim>\<open>size() < static_cast<size_t>(max_orders_per_minute)\<close> is between unsigned 64-bit numbers:
  a negative limit wraps around.
\<close>

definition check_rate_limit :: "int \<Rightarrow> RiskManager \<Rightarrow> bool \<times> RiskManager" where
  "check_rate_limit now_ns rm =
     (let one_minute_ns = 60 * 1000000000;
          kept = filter (\<lambda>ts. \<not> (now_ns - ts > one_minute_ns)) (recent_order_timestamps rm)
      in (int (length kept) < max_orders_per_minute (limits rm) mod 2 ^ 64,
          rm\<lparr>recent_order_timestamps := kept\<rparr>))"

text \<open>A rejecting return of \<^verbatim>\<open>check_order\<close>: the reason is set and the rejection counted.\<close>

definition reject :: "string \<Rightarrow> RiskCheckResult \<Rightarrow> RiskManager \<Rightarrow> RiskCheckResult \<times> RiskManager" where
  "reject reason result rm =
     (result\<lparr>res_reason := reason\<rparr>, rm\<lparr>orders_rejected_today := orders_rejected_today rm + 1\<rparr>)"

text \<open>
  \<^verbatim>\<open>check_order\<close>. \<open>now_check\<close> is the clock reading inside \<^verbatim>\<open>check_rate_limit\<close>,
  \<open>now_push\<close> the later one that an approval appends to the rate-limit history; \<open>pm\<close> is the
  position manager behind \<^verbatim>\<open>position_mgr_\<close>.
\<close>

definition check_order ::
  "OrderRequest \<Rightarrow> real \<Rightarrow> int \<Rightarrow> int \<Rightarrow> PositionManager \<Rightarrow> RiskManager
     \<Rightarrow> RiskCheckResult \<times> RiskManager" where
  "check_order order current_price now_check now_push pm rm =
     (let result = \<lparr>res_allowed = False, res_reason = '''', res_reserved_capital = 0,
                    res_new_exposure = 0, res_new_position_size = 0\<rparr>
      in
      if halt_active rm then reject (''Trading halted: '' @ halt_reason rm) result rm
      else if req_quantity order \<le> 0 then reject ''Invalid quantity: must be > 0'' result rm
      else if req_type order = LIMIT \<and> req_price order \<le> 0
        then reject ''Invalid limit price: must be > 0'' result rm
      else if req_quantity order > max_order_size (limits rm)
        then reject (''Order size exceeds limit: '' @ double_to_string (req_quantity order)
                       @ '' > '' @ double_to_string (max_order_size (limits rm))) result rm
      else
        let (rate_ok, rm1) = check_rate_limit now_check rm in
        if \<not> rate_ok
          then reject (''Order rate limit exceeded: ''
                         @ int_to_string (max_orders_per_minute (limits rm1)) @ '' orders/min'')
                 result rm1
        else if orders_submitted_today rm1 \<ge> max_orders_per_day (limits rm1)
          then reject (''Daily order limit exceeded: ''
                         @ int_to_string (max_orders_per_day (limits rm1))) result rm1
        else
          let order_price = (if req_type order = MARKET then current_price else req_price order);
              order_value = calculate_order_value order order_price;
              current_qty =
                (if position_mgr rm1 then get_quantity (req_instrument order) pm else 0);
              signed_order_qty = (if req_side order = BUY then 1 else - 1) * req_quantity order;
              new_qty = current_qty + signed_order_qty;
              result1 = result\<lparr>res_new_position_size := abs new_qty\<rparr>
          in
          if \<not> check_position_size_limit (req_instrument order) new_qty rm1
            then reject (''Position size limit exceeded: new_qty='' @ double_to_string new_qty
                           @ '', limit='' @ double_to_string (max_position_size (limits rm1)))
                   result1 rm1
          else
            let additional_exposure = abs (signed_order_qty * order_price) in
            if \<not> check_exposure_limit additional_exposure pm rm1
              then reject (''Exposure limit exceeded: would add ''
                             @ double_to_string additional_exposure @ '', limit=''
                             @ double_to_string (max_total_exposure (limits rm1)))
                     result1 rm1
            else if \<not> check_daily_loss_limit rm1
              then
                let reason = ''Daily loss limit exceeded: '' @ double_to_string (daily_pnl rm1)
                               @ '', limit='' @ double_to_string (- max_daily_loss (limits rm1))
                in (result1\<lparr>res_reason := reason\<rparr>,
                    rm1\<lparr>halt_active := True, halt_reason := reason,
                        orders_rejected_today := orders_rejected_today rm1 + 1\<rparr>)
            else
              let total_exposure =
                    (if position_mgr rm1 then get_total_exposure (market_prices rm1) pm else 0);
                  used_capital = total_exposure + total_reserved rm1 + order_value;
                  free_capital = bankroll (limits rm1) - used_capital;
                  min_free = bankroll (limits rm1) * min_free_capital_pct (limits rm1)
              in
              if free_capital < min_free
                then reject (''Insufficient free capital: '' @ double_to_string free_capital
                               @ '' < '' @ double_to_string min_free) result1 rm1
              else
                (result1\<lparr>res_allowed := True, res_reason := ''OK'',
                         res_reserved_capital := order_value,
                         res_new_exposure := total_exposure + order_value\<rparr>,
                 rm1\<lparr>reserved_by_order :=
                        smap_put (req_order_id order) order_value (reserved_by_order rm1),
                      orders_submitted_today := orders_submitted_today rm1 + 1,
                      recent_order_timestamps := recent_order_timestamps rm1 @ [now_push]\<rparr>))"

text \<open>The release of a reservation, common to the three notifications.\<close>

definition free_reserved :: "string \<Rightarrow> RiskManager \<Rightarrow> RiskManager" where
  "free_reserved order_id rm =
     (case smap_find order_id (reserved_by_order rm) of
        Some reserved \<Rightarrow> rm\<lparr>reserved_by_order := smap_erase order_id (reserved_by_order rm)\<rparr>
      | None \<Rightarrow> rm)"

definition update_pnl :: "Fill \<Rightarrow> PositionManager \<Rightarrow> RiskManager \<Rightarrow> RiskManager" where
  "update_pnl fill pm rm =
     (if position_mgr rm
      then rm\<lparr>daily_pnl := get_total_realized_pnl pm
                              + get_total_unrealized_pnl (market_prices rm) pm\<rparr>
      else rm)"

definition rm_on_fill :: "Fill \<Rightarrow> PositionManager \<Rightarrow> RiskManager \<Rightarrow> RiskManager" where
  "rm_on_fill fill pm rm =
     (let rm1 = rm\<lparr>orders_filled_today := orders_filled_today rm + 1\<rparr>;
          rm2 = free_reserved (fill_order_id fill) rm1;
          rm3 = update_pnl fill pm rm2;
          rm4 = (if daily_pnl rm3 > daily_high_pnl rm3
                 then rm3\<lparr>daily_high_pnl := daily_pnl rm3\<rparr> else rm3);
          drawdown_from_high = daily_high_pnl rm4 - daily_pnl rm4
      in if drawdown_from_high > max_drawdown_from_high (limits rm4)
         then rm4\<lparr>halt_active := True,
                  halt_reason := ''Max drawdown from high exceeded: ''
                                   @ double_to_string drawdown_from_high\<rparr>
         else rm4)"

definition on_order_rejected :: "string \<Rightarrow> RiskManager \<Rightarrow> RiskManager" where
  "on_order_rejected order_id rm =
     free_reserved order_id (rm\<lparr>orders_rejected_today := orders_rejected_today rm + 1\<rparr>)"

definition on_order_cancelled :: "string \<Rightarrow> RiskManager \<Rightarrow> RiskManager" where
  "on_order_cancelled order_id rm =
     free_reserved order_id (rm\<lparr>orders_cancelled_today := orders_cancelled_today rm + 1\<rparr>)"

definition should_halt :: "RiskManager \<Rightarrow> bool" where
  "should_halt rm = halt_active rm"

definition get_halt_reason :: "RiskManager \<Rightarrow> string" where
  "get_halt_reason rm = (if halt_active rm then halt_reason rm else '''')"

definition rm_reset_daily :: "RiskManager \<Rightarrow> RiskManager" where
  "rm_reset_daily rm =
     rm\<lparr>daily_pnl := 0, daily_high_pnl := 0, daily_realized_pnl := 0,
        orders_submitted_today := 0, orders_filled_today := 0, orders_rejected_today := 0,
        orders_cancelled_today := 0, recent_order_timestamps := [], reserved_by_order := [],
        halt_active := False, halt_reason := ''''\<rparr>"

definition set_position_manager :: "bool \<Rightarrow> RiskManager \<Rightarrow> RiskManager" where
  "set_position_manager ptr rm = rm\<lparr>position_mgr := ptr\<rparr>"

definition update_market_prices :: "real smap \<Rightarrow> PositionManager \<Rightarrow> RiskManager \<Rightarrow> RiskManager" where
  "update_market_prices prices pm rm =
     (let rm1 = rm\<lparr>market_prices := prices\<rparr>
      in if position_mgr rm1
         then rm1\<lparr>daily_pnl := get_total_realized_pnl pm
                                  + get_total_unrealized_pnl (market_prices rm1) pm\<rparr>
         else rm1)"

section \<open>Execution engine (execution/execution_engine.cpp)\<close>

record OrderState =
  st_request :: OrderRequest
  st_current_status :: OrderUpdate
  st_provider_name :: string
  st_submit_timestamp_ns :: int
  st_last_update_ns :: int

record Stats =
  total_orders_submitted :: int
  total_orders_filled :: int
  total_orders_rejected :: int
  total_orders_cancelled :: int
  stat_active_orders :: int
  total_volume_traded :: real
  last_fill_timestamp_ns :: int

text \<open>
  \<open>eng_risk_mgr\<close> and \<open>eng_position_mgr\<close> are the objects behind the pointers \<^verbatim>\<open>risk_mgr_\<close>
  and \<^verbatim>\<open>position_mgr_\<close> (the constructor refuses null pointers); the position manager of
  the engine is the one that the risk manager reads when its own pointer is set. The
  broker adapters are outside the model: \<open>providers\<close> keeps the names under which adapters
  are registered, and what an adapter answers is an argument of the function that asks.
  A registered callback is a number; \<open>order_callback_calls\<close> and \<open>fill_callback_calls\<close> record
  every invocation of a callback with its argument, in order. An exception thrown by a
  callback is caught and changes nothing. Publishing to Redis changes no state of the
  engine and is left out.
\<close>

record ExecutionEngine =
  eng_risk_mgr :: RiskManager
  eng_position_mgr :: PositionManager
  providers :: "unit smap"
  instrument_routing :: "string smap"
  default_provider :: string
  active_orders :: "OrderState smap"
  completed_orders :: "OrderState smap"
  order_callbacks :: "nat list"
  fill_callbacks :: "nat list"
  stats :: Stats
  shutdown_requested :: bool
  order_callback_calls :: "(nat \<times> OrderUpdate) list"
  fill_callback_calls :: "(nat \<times> Fill) list"

definition ExecutionEngine_new :: "RiskManager \<Rightarrow> PositionManager \<Rightarrow> ExecutionEngine" where
  "ExecutionEngine_new rm pm =
     \<lparr>eng_risk_mgr = rm, eng_position_mgr = pm, providers = [], instrument_routing = [],
      default_provider = '''', active_orders = [], completed_orders = [],
      order_callbacks = [], fill_callbacks = [],
      stats = \<lparr>total_orders_submitted = 0, total_orders_filled = 0, total_orders_rejected = 0,
               total_orders_cancelled = 0, stat_active_orders = 0, total_volume_traded = 0,
               last_fill_timestamp_ns = 0\<rparr>,
      shutdown_requested = False, order_callback_calls = [], fill_callback_calls = []\<rparr>"

text \<open>\<^verbatim>\<open>register_provider\<close>; \<open>provider\<close> is false for a null pointer.\<close>

definition register_provider :: "string \<Rightarrow> bool \<Rightarrow> ExecutionEngine \<Rightarrow> ExecutionEngine" where
  "register_provider name provider eng =
     (if \<not> provider then eng
      else
        let eng1 = eng\<lparr>providers := smap_put name () (providers eng)\<rparr>
        in if default_provider eng1 = [] then eng1\<lparr>default_provider := name\<rparr> else eng1)"

definition register_order_callback :: "nat \<Rightarrow> ExecutionEngine \<Rightarrow> ExecutionEngine" where
  "register_order_callback callback eng =
     eng\<lparr>order_callbacks := order_callbacks eng @ [callback]\<rparr>"

definition register_fill_callback :: "nat \<Rightarrow> ExecutionEngine \<Rightarrow> ExecutionEngine" where
  "register_fill_callback callback eng =
     eng\<lparr>fill_callbacks := fill_callbacks eng @ [callback]\<rparr>"

text \<open>
  The statement \<^verbatim>\<open>for (auto& callback : order_callbacks_) callback(update)\<close> and its
  twin for fills.
\<close>

definition notify_order_callbacks :: "OrderUpdate \<Rightarrow> ExecutionEngine \<Rightarrow> ExecutionEngine" where
  "notify_order_callbacks update eng =
     eng\<lparr>order_callback_calls :=
           order_callback_calls eng @ map (\<lambda>callback. (callback, update)) (order_callbacks eng)\<rparr>"

definition notify_fill_callbacks :: "Fill \<Rightarrow> ExecutionEngine \<Rightarrow> ExecutionEngine" where
  "notify_fill_callbacks fill eng =
     eng\<lparr>fill_callback_calls :=
           fill_callback_calls eng @ map (\<lambda>callback. (callback, fill)) (fill_callbacks eng)\<rparr>"

definition select_provider_for_order :: "OrderRequest \<Rightarrow> ExecutionEngine \<Rightarrow> string" where
  "select_provider_for_order order eng =
     (case smap_find (req_instrument order) (instrument_routing eng) of
        Some name \<Rightarrow> name
      | None \<Rightarrow> default_provider eng)"

definition finalize_order :: "string \<Rightarrow> ExecutionEngine \<Rightarrow> ExecutionEngine" where
  "finalize_order order_id eng =
     (case smap_find order_id (active_orders eng) of
        None \<Rightarrow> eng
      | Some state \<Rightarrow>
          let eng1 = eng\<lparr>completed_orders := smap_put order_id state (completed_orders eng),
                         active_orders := smap_erase order_id (active_orders eng),
                         stats := (stats eng)\<lparr>stat_active_orders :=
                                                 stat_active_orders (stats eng) - 1\<rparr>\<rparr>
          in if length (completed_orders eng1) > 1000
             then eng1\<lparr>completed_orders := tl (completed_orders eng1)\<rparr>
             else eng1)"

definition is_terminal :: "OrderStatus \<Rightarrow> bool" where
  "is_terminal status =
     (status = FILLED \<or> status = CANCELLED \<or> status = REJECTED \<or> status = ERROR
      \<or> status = EXPIRED)"

definition update_order_state :: "OrderUpdate \<Rightarrow> ExecutionEngine \<Rightarrow> ExecutionEngine" where
  "update_order_state update eng =
     (case smap_find (upd_order_id update) (active_orders eng) of
        None \<Rightarrow> eng
      | Some state \<Rightarrow>
          let state1 = state\<lparr>st_current_status := update,
                             st_last_update_ns := upd_timestamp_ns update\<rparr>;
              eng1 = eng\<lparr>active_orders :=
                            smap_put (upd_order_id update) state1 (active_orders eng)\<rparr>
          in if is_terminal (upd_status update)
             then finalize_order (upd_order_id update) eng1
             else eng1)"

definition on_order_update :: "OrderUpdate \<Rightarrow> ExecutionEngine \<Rightarrow> ExecutionEngine" where
  "on_order_update update eng = notify_order_callbacks update (update_order_state update eng)"

text \<open>
  The statements \<^verbatim>\<open>stats_.total_orders_rejected++; risk_mgr_->on_order_rejected(id)\<close> of the
  rejecting paths of \<^verbatim>\<open>submit_order\<close>.
\<close>

definition count_rejected :: "ExecutionEngine \<Rightarrow> ExecutionEngine" where
  "count_rejected eng =
     eng\<lparr>stats := (stats eng)\<lparr>total_orders_rejected := total_orders_rejected (stats eng) + 1\<rparr>\<rparr>"

definition release_rejected :: "string \<Rightarrow> ExecutionEngine \<Rightarrow> ExecutionEngine" where
  "release_rejected order_id eng =
     (count_rejected eng)\<lparr>eng_risk_mgr := on_order_rejected order_id (eng_risk_mgr eng)\<rparr>"

text \<open>
  \<^verbatim>\<open>submit_order\<close>. \<open>now\<close> is the clock reading of the engine, \<open>now_check\<close> and \<open>now_push\<close> are
  those of \<^verbatim>\<open>check_order\<close>; \<open>is_connected\<close> is the answer of the adapter to \<^verbatim>\<open>is_connected()\<close>;
  \<open>reply\<close> is what its \<^verbatim>\<open>submit_order\<close> does: \<open>Inr\<close> the update it returns, \<open>Inl\<close> the
  message of the exception it throws.
\<close>

definition submit_order ::
  "OrderRequest \<Rightarrow> int \<Rightarrow> int \<Rightarrow> int \<Rightarrow> bool \<Rightarrow> string + OrderUpdate \<Rightarrow> ExecutionEngine
     \<Rightarrow> OrderUpdate \<times> ExecutionEngine" where
  "submit_order order now now_check now_push is_connected reply eng =
     (let result = \<lparr>upd_order_id = req_order_id order, upd_status = REJECTED,
                    upd_filled_qty = 0, upd_remaining_qty = req_quantity order,
                    upd_avg_fill_price = 0, upd_reason = '''', upd_timestamp_ns = now,
                    upd_exchange_order_id = None\<rparr>
      in
      if shutdown_requested eng
        then (result\<lparr>upd_reason := ''Execution engine shutting down''\<rparr>, count_rejected eng)
      else
        let price0 = (if req_type order = MARKET then 0 else req_price order);
            current_price = (if price0 = 0 then 1 else price0);
            (risk_result, rm1) =
              check_order order current_price now_check now_push
                (eng_position_mgr eng) (eng_risk_mgr eng);
            eng1 = eng\<lparr>eng_risk_mgr := rm1\<rparr>
        in
        if \<not> res_allowed risk_result
          then (result\<lparr>upd_reason := ''Risk check failed: '' @ res_reason risk_result\<rparr>,
                release_rejected (req_order_id order) eng1)
        else
          let provider_name = select_provider_for_order order eng1 in
          if provider_name = [] \<or> smap_find provider_name (providers eng1) = None
            then (result\<lparr>upd_reason := ''No execution provider available for ''
                                           @ req_instrument order\<rparr>,
                  release_rejected (req_order_id order) eng1)
          else if \<not> is_connected
            then (result\<lparr>upd_reason := ''Provider not connected: '' @ provider_name\<rparr>,
                  release_rejected (req_order_id order) eng1)
          else
            let (result1, eng2) =
                  (case reply of
                     Inr answer \<Rightarrow>
                       if upd_status answer \<noteq> REJECTED
                       then
                         let state = \<lparr>st_request = order, st_current_status = answer,
                                      st_provider_name = provider_name,
                                      st_submit_timestamp_ns = upd_timestamp_ns answer,
                                      st_last_update_ns = upd_timestamp_ns answer\<rparr>
                         in (answer,
                             eng1\<lparr>active_orders :=
                                    smap_put (req_order_id order) state (active_orders eng1),
                                  stats := (stats eng1)
                                    \<lparr>total_orders_submitted :=
                                       total_orders_submitted (stats eng1) + 1,
                                     stat_active_orders :=
                                       stat_active_orders (stats eng1) + 1\<rparr>\<rparr>)
                       else (answer, release_rejected (req_order_id order) eng1)
                   | Inl what \<Rightarrow>
                       (result\<lparr>upd_status := ERROR,
                               upd_reason := ''Provider exception: '' @ what\<rparr>,
                        release_rejected (req_order_id order) eng1))
            in (result1, notify_order_callbacks result1 eng2))"

text \<open>
  The statements of \<^verbatim>\<open>ExecutionEngine::on_fill\<close> that update the state of the order of
  the fill: quantities, average fill price, time of the last update and status.
\<close>

definition order_after_fill :: "Fill \<Rightarrow> OrderState \<Rightarrow> OrderState" where
  "order_after_fill fill state =
     (let status0 = st_current_status state;
          filled_qty = upd_filled_qty status0 + fill_quantity fill;
          remaining_qty = req_quantity (st_request state) - filled_qty;
          total_value =
            upd_avg_fill_price status0 * (filled_qty - fill_quantity fill)
              + fill_price fill * fill_quantity fill;
          status1 = status0\<lparr>upd_filled_qty := filled_qty,
                             upd_remaining_qty := remaining_qty,
                             upd_avg_fill_price := total_value / filled_qty\<rparr>
      in state\<lparr>st_current_status :=
                 status1\<lparr>upd_status :=
                            (if remaining_qty \<le> 1 / 10 ^ 8 then FILLED else PARTIALLY_FILLED)\<rparr>,
               st_last_update_ns := fill_timestamp_ns fill\<rparr>)"

text \<open>\<^verbatim>\<open>ExecutionEngine::on_fill\<close>.\<close>

definition engine_on_fill :: "Fill \<Rightarrow> ExecutionEngine \<Rightarrow> ExecutionEngine" where
  "engine_on_fill fill eng =
     (let pm1 = pm_on_fill fill (eng_position_mgr eng);
          rm1 = rm_on_fill fill pm1 (eng_risk_mgr eng);
          eng1 = eng\<lparr>eng_position_mgr := pm1, eng_risk_mgr := rm1,
                     stats := (stats eng)
                       \<lparr>total_orders_filled := total_orders_filled (stats eng) + 1,
                        total_volume_traded :=
                          total_volume_traded (stats eng) + fill_quantity fill,
                        last_fill_timestamp_ns := fill_timestamp_ns fill\<rparr>\<rparr>;
          eng2 =
            (case smap_find (fill_order_id fill) (active_orders eng1) of
               None \<Rightarrow> eng1
             | Some state \<Rightarrow>
                 let state1 = order_after_fill fill state;
                     eng1' = eng1\<lparr>active_orders :=
                                    smap_put (fill_order_id fill) state1 (active_orders eng1)\<rparr>
                 in if upd_remaining_qty (st_current_status state1) \<le> 1 / 10 ^ 8
                    then finalize_order (fill_order_id fill) eng1'
                    else eng1')
      in notify_fill_callbacks fill eng2)"

text \<open>\<^verbatim>\<open>get_order_status\<close>: the active orders first, then the completed ones.\<close>

definition get_order_status :: "string \<Rightarrow> ExecutionEngine \<Rightarrow> OrderUpdate option" where
  "get_order_status order_id eng =
     (case smap_find order_id (active_orders eng) of
        Some state \<Rightarrow> Some (st_current_status state)
      | None \<Rightarrow>
          (case smap_find order_id (completed_orders eng) of
             Some state \<Rightarrow> Some (st_current_status state)
           | None \<Rightarrow> None))"

section \<open>Runs of operations and the notions of the claims\<close>












text \<open>
  The operations that change a risk manager. A step takes the state that the position
  manager has at that moment.
\<close>

datatype rm_op =
    CheckOrder OrderRequest real int int
  | RmOnFill Fill
  | OnOrderRejected string
  | OnOrderCancelled string
  | UpdateMarketPrices "real smap"
  | SetPositionManager bool
  | RmResetDaily

fun rm_step :: "rm_op \<Rightarrow> PositionManager \<Rightarrow> RiskManager \<Rightarrow> RiskManager" where
  "rm_step (CheckOrder order current_price now_check now_push) pm rm =
     snd (check_order order current_price now_check now_push pm rm)"
| "rm_step (RmOnFill fill) pm rm = rm_on_fill fill pm rm"
| "rm_step (OnOrderRejected order_id) pm rm = on_order_rejected order_id rm"
| "rm_step (OnOrderCancelled order_id) pm rm = on_order_cancelled order_id rm"
| "rm_step (UpdateMarketPrices prices) pm rm = update_market_prices prices pm rm"
| "rm_step (SetPositionManager ptr) pm rm = set_position_manager ptr rm"
| "rm_step RmResetDaily pm rm = rm_reset_daily rm"

fun rm_run :: "(rm_op \<times> PositionManager) list \<Rightarrow> RiskManager \<Rightarrow> RiskManager" where
  "rm_run [] rm = rm"
| "rm_run ((op, pm) # ops) rm = rm_run ops (rm_step op pm rm)"

text \<open>The drawdown of a risk manager: \<^verbatim>\<open>daily_high_pnl_ - daily_pnl_\<close>.\<close>

definition drawdown :: "RiskManager \<Rightarrow> real" where
  "drawdown rm = daily_high_pnl rm - daily_pnl rm"

fun is_on_fill :: "rm_op \<Rightarrow> bool" where
  "is_on_fill (RmOnFill fill) = True"
| "is_on_fill op = False"





text \<open>The four checks of \<^verbatim>\<open>check_order\<close> that come before the rate limit.\<close>

definition early_reject :: "OrderRequest \<Rightarrow> RiskManager \<Rightarrow> bool" where
  "early_reject order rm =
     (halt_active rm \<or> req_quantity order \<le> 0
      \<or> (req_type order = LIMIT \<and> req_price order \<le> 0)
      \<or> req_quantity order > max_order_size (limits rm))"



text \<open>
  The ledger of reservations as the specification describes it: an approval by
  \<^verbatim>\<open>check_order\<close> enters the order id, a fill, a rejection or a cancellation of that order
  takes it out, \<^verbatim>\<open>reset_daily\<close> empties the ledger.
\<close>

fun ledger_after :: "rm_op \<Rightarrow> PositionManager \<Rightarrow> RiskManager \<Rightarrow> string list \<Rightarrow> string list" where
  "ledger_after (CheckOrder order current_price now_check now_push) pm rm ids =
     (if res_allowed (fst (check_order order current_price now_check now_push pm rm))
      then List.insert (req_order_id order) ids else ids)"
| "ledger_after (RmOnFill fill) pm rm ids = removeAll (fill_order_id fill) ids"
| "ledger_after (OnOrderRejected order_id) pm rm ids = removeAll order_id ids"
| "ledger_after (OnOrderCancelled order_id) pm rm ids = removeAll order_id ids"
| "ledger_after RmResetDaily pm rm ids = []"
| "ledger_after op pm rm ids = ids"

fun ledger :: "(rm_op \<times> PositionManager) list \<Rightarrow> RiskManager \<Rightarrow> string list \<Rightarrow> string list" where
  "ledger [] rm ids = ids"
| "ledger ((op, pm) # ops) rm ids = ledger ops (rm_step op pm rm) (ledger_after op pm rm ids)"

text \<open>The invariant that ties the reservations to the ledger.\<close>

definition ledger_inv :: "RiskManager \<Rightarrow> string list \<Rightarrow> bool" where
  "ledger_inv rm ids =
     (smap_ok (reserved_by_order rm) \<and> fst ` set (reserved_by_order rm) = set ids
      \<and> distinct ids)"

section \<open>Example states\<close>

text \<open>A long position of 100 EUR/USD entered at 1.1000, and a sale of 150 at 1.1100.\<close>

definition example_long :: Position where
  "example_long =
     \<lparr>pos_instrument = ''EUR/USD'', pos_quantity = 100, pos_entry_price = 11 / 10,
      pos_unrealized_pnl = 0, pos_realized_pnl = 0, pos_last_update_ns = 1,
      pos_num_fills_today = 1, pos_total_commission = 0\<rparr>"

definition example_long_pm :: PositionManager where
  "example_long_pm =
     \<lparr>positions = [(''EUR/USD'', example_long)], total_realized_pnl = 0, total_fills_today = 1\<rparr>"

definition example_sell_150 :: Fill where
  "example_sell_150 =
     \<lparr>fill_id = ''F2'', fill_order_id = ''O2'', fill_instrument = ''EUR/USD'',
      fill_side = SELL, fill_quantity = 150, fill_price = 111 / 100,
      fill_commission = 0, fill_timestamp_ns = 2, fill_exchange_trade_id = None\<rparr>"

text \<open>A fill of quantity zero.\<close>

definition example_zero_fill :: Fill where
  "example_zero_fill =
     \<lparr>fill_id = ''F0'', fill_order_id = ''O0'', fill_instrument = ''EUR/USD'',
      fill_side = BUY, fill_quantity = 0, fill_price = 11 / 10,
      fill_commission = 0, fill_timestamp_ns = 1, fill_exchange_trade_id = None\<rparr>"



text \<open>Purchases of 100 at 1.1000 and of 50 at 1.1100.\<close>

definition example_buy_100 :: Fill where
  "example_buy_100 =
     \<lparr>fill_id = ''F1'', fill_order_id = ''O1'', fill_instrument = ''EUR/USD'',
      fill_side = BUY, fill_quantity = 100, fill_price = 11 / 10,
      fill_commission = 0, fill_timestamp_ns = 1, fill_exchange_trade_id = None\<rparr>"


text \<open>The limits of the end-to-end scenarios.\<close>

definition example_limits :: RiskLimits where
  "example_limits =
     \<lparr>max_position_size = 1000, max_total_exposure = 100000, max_single_position_pct = 0,
      max_daily_loss = 5000, max_daily_loss_pct = 0, max_drawdown_from_high = 1000,
      max_orders_per_minute = 100, max_orders_per_day = 10000, max_order_size = 500,
      bankroll = 100000, min_free_capital_pct = 1 / 10\<rparr>"

text \<open>A stop-limit order with limit price zero, and a market order of quantity zero.\<close>

definition example_stop_limit_order :: OrderRequest where
  "example_stop_limit_order =
     \<lparr>req_order_id = ''O1'', req_instrument = ''EUR/USD'', req_side = BUY,
      req_type = STOP_LIMIT, req_quantity = 10, req_price = 0, req_tif = DAY,
      req_strategy_id = ''test_strategy'', req_user_comment = '''', req_timestamp_ns = 1,
      req_stop_price = Some (11 / 10)\<rparr>"

definition example_zero_order :: OrderRequest where
  "example_zero_order =
     \<lparr>req_order_id = ''O2'', req_instrument = ''EUR/USD'', req_side = BUY,
      req_type = MARKET, req_quantity = 0, req_price = 0, req_tif = DAY,
      req_strategy_id = ''test_strategy'', req_user_comment = '''', req_timestamp_ns = 1,
      req_stop_price = None\<rparr>"

text \<open>A risk manager that a drawdown has halted.\<close>

definition example_halted_rm :: RiskManager where
  "example_halted_rm =
     (RiskManager_new example_limits)
       \<lparr>halt_active := True, halt_reason := ''Max drawdown from high exceeded: 1500.000000''\<rparr>"

text \<open>
  Limits with a daily loss limit and a drawdown limit of 10, a position manager that has
  realized a loss of 20 (100 bought at 1.10 and sold at 0.90), and a market order.
\<close>

definition example_tight_limits :: RiskLimits where
  "example_tight_limits = example_limits\<lparr>max_daily_loss := 10, max_drawdown_from_high := 10\<rparr>"

definition example_sell_100_low :: Fill where
  "example_sell_100_low =
     \<lparr>fill_id = ''F2'', fill_order_id = ''O2'', fill_instrument = ''EUR/USD'',
      fill_side = SELL, fill_quantity = 100, fill_price = 9 / 10,
      fill_commission = 0, fill_timestamp_ns = 2, fill_exchange_trade_id = None\<rparr>"

definition example_loss_pm :: PositionManager where
  "example_loss_pm = fold pm_on_fill [example_buy_100, example_sell_100_low] PositionManager_new"

definition example_market_order :: OrderRequest where
  "example_market_order =
     \<lparr>req_order_id = ''O3'', req_instrument = ''EUR/USD'', req_side = BUY,
      req_type = MARKET, req_quantity = 10, req_price = 0, req_tif = DAY,
      req_strategy_id = ''test_strategy'', req_user_comment = '''', req_timestamp_ns = 3,
      req_stop_price = None\<rparr>"

text \<open>The risk manager after the daily-loss check of \<^verbatim>\<open>check_order\<close> has halted it.\<close>

definition example_loss_halted_rm :: RiskManager where
  "example_loss_halted_rm =
     rm_run [(SetPositionManager True, PositionManager_new),
             (UpdateMarketPrices [], example_loss_pm),
             (CheckOrder example_market_order 1 1000 1001, example_loss_pm)]
       (RiskManager_new example_tight_limits)"

text \<open>Limits that allow one order per minute, and two calls of \<^verbatim>\<open>check_order\<close> a microsecond apart.\<close>

definition example_rate_limits :: RiskLimits where
  "example_rate_limits = example_limits\<lparr>max_orders_per_minute := 1\<rparr>"

definition example_two_checks :: "(rm_op \<times> PositionManager) list" where
  "example_two_checks =
     [(CheckOrder example_market_order 1 1000 1001, PositionManager_new),
      (CheckOrder example_market_order 1 2000 2001, PositionManager_new)]"

text \<open>
  An engine with the adapter \<open>mock\<close> and one order callback, a market order for 300, the
  acknowledgement of the adapter, and the engine after the submission.
\<close>

definition example_engine :: ExecutionEngine where
  "example_engine =
     register_order_callback 7
       (register_provider ''mock'' True
          (ExecutionEngine_new (set_position_manager True (RiskManager_new example_limits))
             PositionManager_new))"

definition example_order_300 :: OrderRequest where
  "example_order_300 =
     \<lparr>req_order_id = ''O1'', req_instrument = ''EUR/USD'', req_side = BUY,
      req_type = MARKET, req_quantity = 300, req_price = 0, req_tif = DAY,
      req_strategy_id = ''test_strategy'', req_user_comment = '''', req_timestamp_ns = 1,
      req_stop_price = None\<rparr>"

definition example_ack :: OrderUpdate where
  "example_ack =
     \<lparr>upd_order_id = ''O1'', upd_status = ACKNOWLEDGED, upd_filled_qty = 0,
      upd_remaining_qty = 300, upd_avg_fill_price = 0,
      upd_reason = ''Order accepted by mock broker'', upd_timestamp_ns = 10,
      upd_exchange_order_id = None\<rparr>"

definition example_submitted :: ExecutionEngine where
  "example_submitted =
     snd (submit_order example_order_300 5 6 7 True (Inr example_ack) example_engine)"

text \<open>The adapter reports the order filled, and later reports it acknowledged once more.\<close>

definition example_filled_update :: OrderUpdate where
  "example_filled_update =
     \<lparr>upd_order_id = ''O1'', upd_status = FILLED, upd_filled_qty = 300,
      upd_remaining_qty = 0, upd_avg_fill_price = 11 / 10, upd_reason = '''',
      upd_timestamp_ns = 20, upd_exchange_order_id = None\<rparr>"

definition example_late_update :: OrderUpdate where
  "example_late_update =
     \<lparr>upd_order_id = ''O1'', upd_status = ACKNOWLEDGED, upd_filled_qty = 0,
      upd_remaining_qty = 300, upd_avg_fill_price = 0, upd_reason = '''',
      upd_timestamp_ns = 30, upd_exchange_order_id = None\<rparr>"

text \<open>Fills of 100 at 1.10 and of 100 at 1.20 for the order \<open>O1\<close>.\<close>

definition example_fill_a :: Fill where
  "example_fill_a =
     \<lparr>fill_id = ''FILL_1'', fill_order_id = ''O1'', fill_instrument = ''EUR/USD'',
      fill_side = BUY, fill_quantity = 100, fill_price = 11 / 10,
      fill_commission = 1 / 100, fill_timestamp_ns = 20, fill_exchange_trade_id = None\<rparr>"


text \<open>The state under which \<open>example_submitted\<close> tracks the order \<open>O1\<close>.\<close>

definition example_tracked :: OrderState where
  "example_tracked =
     \<lparr>st_request = example_order_300, st_current_status = example_ack,
      st_provider_name = ''mock'', st_submit_timestamp_ns = 10, st_last_update_ns = 10\<rparr>"

section \<open>Properties of the map operations\<close>

lemma smap_find_put_same: "smap_find k (smap_put k v m) = Some v"
  by (induction m) (auto simp: smap_find_def)

lemma smap_find_put_other: "k' \<noteq> k \<Longrightarrow> smap_find k' (smap_put k v m) = smap_find k' m"
  by (induction m) (auto simp: smap_find_def)

lemma smap_ok_Cons: "smap_ok ((k, v) # m) = ((\<forall>k' \<in> set (map fst m). k < k') \<and> smap_ok m)"
  by (auto simp: smap_ok_def)

lemma set_fst_put: "fst ` set (smap_put k v m) = insert k (fst ` set m)"
proof (induction m)
  case Nil
  then show ?case by simp
next
  case (Cons a m)
  obtain k' v' where a: "a = (k', v')" by (cases a)
  show ?case unfolding a using Cons.IH by (simp add: insert_commute)
qed

lemma smap_ok_put: "smap_ok m \<Longrightarrow> smap_ok (smap_put k v m)"
proof (induction m)
  case Nil
  then show ?case by (simp add: smap_ok_def)
next
  case (Cons a m)
  obtain k' v' where a: "a = (k', v')" by (cases a)
  show ?case
  proof (cases "k < k'")
    case True
    with Cons.prems a show ?thesis by (auto simp: smap_ok_def)
  next
    case False
    show ?thesis
    proof (cases "k = k'")
      case True
      with Cons.prems a show ?thesis by (auto simp: smap_ok_def)
    next
      case ne: False
      with False have "k' < k" by auto
      with Cons a False ne show ?thesis
        using set_fst_put[of k v m] by (auto simp: smap_ok_Cons)
    qed
  qed
qed

lemma smap_find_None_iff: "smap_find k m = None \<longleftrightarrow> k \<notin> set (map fst m)"
  by (simp add: smap_find_def map_of_eq_None_iff)





lemma set_erase_subset: "set (smap_erase k m) \<subseteq> set m"
  by (induction m) (auto split: if_splits)

lemma smap_erase_absent: "k \<notin> fst ` set m \<Longrightarrow> smap_erase k m = m"
  by (induction m) auto

lemma smap_ok_erase: "smap_ok m \<Longrightarrow> smap_ok (smap_erase k m)"
proof (induction m)
  case Nil
  then show ?case by simp
next
  case (Cons a m)
  obtain k' v' where a: "a = (k', v')" by (cases a)
  from Cons a show ?case using set_erase_subset[of k m] by (fastforce simp: smap_ok_Cons)
qed

lemma smap_find_erase_same: "smap_ok m \<Longrightarrow> smap_find k (smap_erase k m) = None"
proof (induction m)
  case Nil
  then show ?case by (simp add: smap_find_def)
next
  case (Cons a m)
  obtain k' v' where a: "a = (k', v')" by (cases a)
  show ?case
  proof (cases "k = k'")
    case True
    from Cons.prems a True have "k \<notin> fst ` set m" by (auto simp: smap_ok_Cons)
    then show ?thesis using a True by (simp add: smap_find_None_iff)
  next
    case False
    from Cons a have "smap_find k (smap_erase k m) = None" by (simp add: smap_ok_Cons)
    then show ?thesis using a False by (simp add: smap_find_def)
  qed
qed


lemma fst_set_erase:
  "smap_ok m \<Longrightarrow> fst ` set (smap_erase k m) = fst ` set m - {k}"
proof (induction m)
  case Nil
  then show ?case by simp
next
  case (Cons a m)
  obtain k' v' where a: "a = (k', v')" by (cases a)
  from Cons.prems a have lt: "\<forall>x \<in> fst ` set m. k' < x" and ok: "smap_ok m"
    by (auto simp: smap_ok_Cons)
  show ?case
  proof (cases "k = k'")
    case True
    with lt have "k \<notin> fst ` set m" by auto
    with a True show ?thesis by auto
  next
    case False
    with Cons.IH[OF ok] a show ?thesis by auto
  qed
qed

lemma smap_ok_distinct: "smap_ok m \<Longrightarrow> distinct (map fst m)"
  unfolding smap_ok_def by (induction m) auto

section \<open>Position manager\<close>

lemma pm_on_fill_existing:
  "smap_find (fill_instrument fill) (positions pm) = Some pos \<Longrightarrow>
   pm_on_fill fill pm =
     pm\<lparr>total_fills_today := total_fills_today pm + 1,
        positions := smap_put (fill_instrument fill) (fst (apply_fill fill pos)) (positions pm),
        total_realized_pnl := total_realized_pnl pm + snd (apply_fill fill pos)\<rparr>"
  by (simp add: pm_on_fill_def Let_def split: prod.splits)

lemma pm_on_fill_absent:
  "smap_find (fill_instrument fill) (positions pm) = None \<Longrightarrow>
   pm_on_fill fill pm =
     pm\<lparr>total_fills_today := total_fills_today pm + 1,
        positions := smap_put (fill_instrument fill) (open_position fill) (positions pm)\<rparr>"
  by (simp add: pm_on_fill_def Let_def)





text \<open>
  Claim C1. A fill of the opposite sign on a position with quantity \<open>q \<noteq> 0\<close> and entry
  price \<open>p_e\<close>, of signed quantity \<open>f\<close> at price \<open>p_f\<close>, adds
  \<open>min |f| |q| * (p_f - p_e)\<close> (long) or \<open>min |f| |q| * (p_e - p_f)\<close> (short) to the
  realized PnL of the position and to the global counter, sets the quantity to \<open>q + f\<close>,
  keeps the entry price when \<open>|f| \<le> |q|\<close> and sets it to \<open>p_f\<close> when the fill crosses
  through zero.
\<close>

theorem on_fill_opposite_sign:
  assumes pos: "smap_find (fill_instrument fill) (positions pm) = Some pos"
    and q: "q = pos_quantity pos" and pe: "p_e = pos_entry_price pos"
    and f: "f = signed_fill_qty fill" and pf: "p_f = fill_price fill"
    and opp: "(q > 0 \<and> f < 0) \<or> (q < 0 \<and> f > 0)"
  shows "\<exists>pos'. smap_find (fill_instrument fill) (positions (pm_on_fill fill pm)) = Some pos'
      \<and> pos_realized_pnl pos' = pos_realized_pnl pos +
            (if q > 0 then min (abs f) (abs q) * (p_f - p_e) else min (abs f) (abs q) * (p_e - p_f))
      \<and> get_total_realized_pnl (pm_on_fill fill pm) = get_total_realized_pnl pm +
            (if q > 0 then min (abs f) (abs q) * (p_f - p_e) else min (abs f) (abs q) * (p_e - p_f))
      \<and> pos_quantity pos' = q + f
      \<and> pos_entry_price pos' = (if abs f \<le> abs q then p_e else p_f)"
proof -
  from opp have neg: "q * f < 0" by (auto simp: mult_less_0_iff)
  then have nz: "q \<noteq> 0" and npos: "\<not> q * f > 0" by auto
  have minc: "min (abs q) (abs f) = min (abs f) (abs q)" by (simp add: min.commute)
  have cross: "((q > 0 \<and> q + f < 0) \<or> (q < 0 \<and> q + f > 0)) = (\<not> (abs f \<le> abs q))"
    using opp by auto
  show ?thesis
    unfolding pm_on_fill_existing[OF pos] get_total_realized_pnl_def
    using neg nz npos cross minc
    by (simp add: smap_find_put_same apply_fill_def calculate_realized_pnl_def Let_def
          q[symmetric] f[symmetric] pe[symmetric] pf[symmetric])
qed

theorem on_fill_opposite_sign_witness:
  "\<exists>pos'. smap_find ''EUR/USD'' (positions (pm_on_fill example_sell_150 example_long_pm)) = Some pos'
      \<and> pos_realized_pnl pos' = 1
      \<and> get_total_realized_pnl (pm_on_fill example_sell_150 example_long_pm) = 1
      \<and> pos_quantity pos' = - 50
      \<and> pos_entry_price pos' = 111 / 100"
proof -
  have found: "smap_find (fill_instrument example_sell_150) (positions example_long_pm)
      = Some example_long"
    by (simp add: example_sell_150_def example_long_pm_def smap_find_def)
  have opp: "(pos_quantity example_long > 0 \<and> signed_fill_qty example_sell_150 < 0)
      \<or> (pos_quantity example_long < 0 \<and> signed_fill_qty example_sell_150 > 0)"
    by (simp add: example_sell_150_def example_long_def signed_fill_qty_def)
  from on_fill_opposite_sign [OF found refl refl refl refl opp] show ?thesis
    by (auto simp: example_sell_150_def example_long_def signed_fill_qty_def
          get_total_realized_pnl_def example_long_pm_def)
qed


text \<open>
  Claim C5 as stated (a fill with quantity \<open>\<le> 0\<close> is ignored: no position is created or
  modified and no counter changes) fails: \<^verbatim>\<open>on_fill\<close> has no check of the quantity. A fill
  of quantity zero on a new position manager counts as a fill and creates a position.
\<close>

theorem on_fill_nonpositive_quantity_not_ignored:
  "fill_quantity example_zero_fill \<le> 0
   \<and> total_fills_today (pm_on_fill example_zero_fill PositionManager_new) = 1
   \<and> total_fills_today PositionManager_new = 0
   \<and> smap_find ''EUR/USD'' (positions PositionManager_new) = None
   \<and> smap_find ''EUR/USD'' (positions (pm_on_fill example_zero_fill PositionManager_new))
       = Some (open_position example_zero_fill)"
  by (simp add: example_zero_fill_def PositionManager_new_def pm_on_fill_def smap_find_def)

text \<open>
  Claim C5, amended. A fill with quantity \<open>\<le> 0\<close> is applied like any other fill:
  \<^verbatim>\<open>total_fills_today\<close> grows by one, and afterwards the instrument has a position whose
  fill count, commission and quantity are those of the position before (the zero position
  when there was none) plus one, plus the commission and plus the signed quantity of the fill.
  The function is total: no exception escapes.
\<close>

theorem on_fill_nonpositive_quantity_applied:
  assumes "fill_quantity fill \<le> 0"
  shows "total_fills_today (pm_on_fill fill pm) = total_fills_today pm + 1
    \<and> (\<exists>pos'. smap_find (fill_instrument fill) (positions (pm_on_fill fill pm)) = Some pos'
         \<and> pos_num_fills_today pos' =
             pos_num_fills_today (get_position (fill_instrument fill) pm) + 1
         \<and> pos_total_commission pos' =
             pos_total_commission (get_position (fill_instrument fill) pm) + fill_commission fill
         \<and> pos_quantity pos' =
             pos_quantity (get_position (fill_instrument fill) pm) + signed_fill_qty fill)"
proof (cases "smap_find (fill_instrument fill) (positions pm)")
  case None
  show ?thesis
    unfolding pm_on_fill_absent[OF None]
    by (simp add: smap_find_put_same get_position_def None open_position_def)
next
  case (Some pos)
  show ?thesis
    unfolding pm_on_fill_existing[OF Some]
    by (simp add: smap_find_put_same get_position_def Some apply_fill_def Let_def)
qed

theorem on_fill_nonpositive_quantity_applied_witness:
  "fill_quantity example_zero_fill \<le> 0
   \<and> total_fills_today (pm_on_fill example_zero_fill example_long_pm) = 2
   \<and> (\<exists>pos'. smap_find ''EUR/USD'' (positions (pm_on_fill example_zero_fill example_long_pm)) = Some pos'
         \<and> pos_num_fills_today pos' = 2 \<and> pos_total_commission pos' = 0 \<and> pos_quantity pos' = 100)"
proof -
  have h: "fill_quantity example_zero_fill \<le> 0" by (simp add: example_zero_fill_def)
  from on_fill_nonpositive_quantity_applied [OF h, of example_long_pm] h show ?thesis
    by (auto simp: example_zero_fill_def example_long_pm_def example_long_def get_position_def
          smap_find_def signed_fill_qty_def)
qed



lemma on_fill_other_instrument:
  "k \<noteq> fill_instrument fill \<Longrightarrow>
   smap_find k (positions (pm_on_fill fill pm)) = smap_find k (positions pm)"
  by (cases "smap_find (fill_instrument fill) (positions pm)")
     (simp_all add: pm_on_fill_absent pm_on_fill_existing smap_find_put_other)





section \<open>Risk manager: halt and validation\<close>

text \<open>
  Claim C6 as stated fails twice: a StopLimit order with price \<open>\<le> 0\<close> is not rejected (only
  the type LIMIT is checked), here it is approved and reserves capital; and on a halted
  risk manager the reason returned is the halt reason, not an invalid-quantity reason,
  since the halt check comes first.
\<close>

theorem check_order_stop_limit_price_not_validated:
  "req_type example_stop_limit_order = STOP_LIMIT \<and> req_price example_stop_limit_order \<le> 0
   \<and> res_allowed (fst (check_order example_stop_limit_order 1 1000 1001 PositionManager_new
         (RiskManager_new example_limits)))
   \<and> reserved_by_order (snd (check_order example_stop_limit_order 1 1000 1001 PositionManager_new
         (RiskManager_new example_limits))) = [(''O1'', 0)]
   \<and> req_quantity example_zero_order \<le> 0
   \<and> res_reason (fst (check_order example_zero_order 1 1000 1001 PositionManager_new
         example_halted_rm))
       = ''Trading halted: Max drawdown from high exceeded: 1500.000000''"
  by (simp add: example_stop_limit_order_def example_zero_order_def example_halted_rm_def
        RiskManager_new_def example_limits_def check_order_def reject_def check_rate_limit_def
        Let_def check_position_size_limit_def check_exposure_limit_def check_daily_loss_limit_def
        total_reserved_def calculate_order_value_def)

text \<open>
  Claim C6, amended. For every order with quantity \<open>\<le> 0\<close>, and for every order of type
  LIMIT with price \<open>\<le> 0\<close>, \<^verbatim>\<open>check_order\<close> returns \<open>allowed = false\<close> with zero reserved
  capital, exposure and position size, and changes nothing in the risk manager but the
  count of rejected orders: no later rule is evaluated, no time stamp is evicted and no
  reservation is created. The reason is the invalid-quantity reason (quantity \<open>\<le> 0\<close>) or the
  invalid-limit-price reason, unless trading is halted: then it is the halt reason.
\<close>

theorem check_order_invalid_rejected:
  assumes "req_quantity order \<le> 0 \<or> (req_type order = LIMIT \<and> req_price order \<le> 0)"
  shows "check_order order current_price now_check now_push pm rm =
     (\<lparr>res_allowed = False,
       res_reason =
         (if halt_active rm then ''Trading halted: '' @ halt_reason rm
          else if req_quantity order \<le> 0 then ''Invalid quantity: must be > 0''
          else ''Invalid limit price: must be > 0''),
       res_reserved_capital = 0, res_new_exposure = 0, res_new_position_size = 0\<rparr>,
      rm\<lparr>orders_rejected_today := orders_rejected_today rm + 1\<rparr>)"
  using assms by (auto simp: check_order_def reject_def)

theorem check_order_invalid_rejected_witness:
  "req_quantity example_zero_order \<le> 0
   \<and> fst (check_order example_zero_order 1 1000 1001 PositionManager_new
        (RiskManager_new example_limits))
      = \<lparr>res_allowed = False, res_reason = ''Invalid quantity: must be > 0'',
         res_reserved_capital = 0, res_new_exposure = 0, res_new_position_size = 0\<rparr>
   \<and> reserved_by_order (snd (check_order example_zero_order 1 1000 1001 PositionManager_new
        (RiskManager_new example_limits))) = []
   \<and> orders_rejected_today (snd (check_order example_zero_order 1 1000 1001
        PositionManager_new (RiskManager_new example_limits))) = 1"
proof -
  have h: "req_quantity example_zero_order \<le> 0
      \<or> (req_type example_zero_order = LIMIT \<and> req_price example_zero_order \<le> 0)"
    by (simp add: example_zero_order_def)
  show ?thesis
    unfolding check_order_invalid_rejected [OF h]
    by (simp add: example_zero_order_def RiskManager_new_def)
qed

lemma example_loss_pm_eval:
  "example_loss_pm =
     \<lparr>positions =
        [(''EUR/USD'',
          \<lparr>pos_instrument = ''EUR/USD'', pos_quantity = 0, pos_entry_price = 11 / 10,
           pos_unrealized_pnl = 0, pos_realized_pnl = - 20, pos_last_update_ns = 2,
           pos_num_fills_today = 2, pos_total_commission = 0\<rparr>)],
      total_realized_pnl = - 20, total_fills_today = 2\<rparr>"
  by (simp add: example_loss_pm_def example_buy_100_def example_sell_100_low_def
        PositionManager_new_def pm_on_fill_def smap_find_def open_position_def apply_fill_def
        signed_fill_qty_def calculate_realized_pnl_def Let_def)

lemma example_loss_halted_rm_eval:
  "example_loss_halted_rm =
     (RiskManager_new example_tight_limits)
       \<lparr>position_mgr := True, daily_pnl := - 20, orders_rejected_today := 1,
        halt_active := True,
        halt_reason := ''Daily loss limit exceeded: '' @ double_to_string (- 20)
                         @ '', limit='' @ double_to_string (- 10)\<rparr>"
  by (simp add: example_loss_halted_rm_def example_loss_pm_eval RiskManager_new_def
        example_tight_limits_def example_limits_def example_market_order_def
        set_position_manager_def update_market_prices_def get_total_realized_pnl_def
        get_total_unrealized_pnl_def get_total_exposure_def get_quantity_def smap_find_def
        check_order_def reject_def check_rate_limit_def Let_def check_position_size_limit_def
        check_exposure_limit_def check_daily_loss_limit_def total_reserved_def
        calculate_order_value_def)

text \<open>
  Claim C4 as stated fails in its second part: \<^verbatim>\<open>on_fill\<close> assigns \<^verbatim>\<open>halt_reason_\<close> whenever
  the drawdown exceeds the limit, also when trading is halted already. A risk manager
  halted by the daily-loss check has the drawdown reason after the next fill.
\<close>

theorem halt_reason_replaced_by_on_fill:
  "halt_active example_loss_halted_rm
   \<and> halt_reason example_loss_halted_rm
       = ''Daily loss limit exceeded: '' @ double_to_string (- 20) @ '', limit=''
           @ double_to_string (- 10)
   \<and> halt_active (rm_on_fill example_sell_100_low example_loss_pm example_loss_halted_rm)
   \<and> halt_reason (rm_on_fill example_sell_100_low example_loss_pm example_loss_halted_rm)
       = ''Max drawdown from high exceeded: '' @ double_to_string 20
   \<and> halt_reason (rm_on_fill example_sell_100_low example_loss_pm example_loss_halted_rm)
       \<noteq> halt_reason example_loss_halted_rm"
  by (simp add: example_loss_halted_rm_eval example_loss_pm_eval RiskManager_new_def
        example_tight_limits_def example_limits_def example_sell_100_low_def
        rm_on_fill_def free_reserved_def update_pnl_def get_total_realized_pnl_def
        get_total_unrealized_pnl_def smap_find_def Let_def)

lemma free_reserved_halt:
  "halt_active (free_reserved order_id rm) = halt_active rm"
  "halt_reason (free_reserved order_id rm) = halt_reason rm"
  "limits (free_reserved order_id rm) = limits rm"
  "daily_pnl (free_reserved order_id rm) = daily_pnl rm"
  "daily_high_pnl (free_reserved order_id rm) = daily_high_pnl rm"
  by (simp_all add: free_reserved_def split: option.splits)

lemma check_order_halted:
  "halt_active rm \<Longrightarrow>
   check_order order current_price now_check now_push pm rm =
     (\<lparr>res_allowed = False, res_reason = ''Trading halted: '' @ halt_reason rm,
       res_reserved_capital = 0, res_new_exposure = 0, res_new_position_size = 0\<rparr>,
      rm\<lparr>orders_rejected_today := orders_rejected_today rm + 1\<rparr>)"
  by (simp add: check_order_def reject_def)

lemma rm_on_fill_halt:
  "halt_active rm \<Longrightarrow> halt_active (rm_on_fill fill pm rm)"
  by (simp add: rm_on_fill_def Let_def update_pnl_def free_reserved_halt)

lemma rm_on_fill_limits: "limits (rm_on_fill fill pm rm) = limits rm"
  by (simp add: rm_on_fill_def Let_def update_pnl_def free_reserved_halt)

lemma rm_on_fill_reason:
  "halt_reason (rm_on_fill fill pm rm) =
     (if max_drawdown_from_high (limits rm) < drawdown (rm_on_fill fill pm rm)
      then ''Max drawdown from high exceeded: '' @ double_to_string (drawdown (rm_on_fill fill pm rm))
      else halt_reason rm)"
  by (simp add: rm_on_fill_def Let_def update_pnl_def free_reserved_halt drawdown_def)

lemma rm_step_halt:
  assumes "halt_active rm" and "op \<noteq> RmResetDaily"
  shows "halt_active (rm_step op pm rm)"
  using assms
  by (cases op)
     (simp_all add: check_order_halted rm_on_fill_halt on_order_rejected_def
        on_order_cancelled_def free_reserved_halt update_market_prices_def Let_def
        set_position_manager_def)

lemma rm_step_reason:
  assumes "halt_active rm" and "op \<noteq> RmResetDaily"
  shows "halt_reason (rm_step op pm rm) =
     (if is_on_fill op \<and> max_drawdown_from_high (limits rm) < drawdown (rm_step op pm rm)
      then ''Max drawdown from high exceeded: '' @ double_to_string (drawdown (rm_step op pm rm))
      else halt_reason rm)"
  using assms
  by (cases op)
     (simp_all add: check_order_halted rm_on_fill_reason on_order_rejected_def
        on_order_cancelled_def free_reserved_halt update_market_prices_def Let_def
        set_position_manager_def)

lemma rm_run_halt:
  "halt_active rm \<Longrightarrow> list_all (\<lambda>(op, pm). op \<noteq> RmResetDaily) ops \<Longrightarrow>
   halt_active (rm_run ops rm)"
proof (induction ops arbitrary: rm)
  case Nil
  then show ?case by simp
next
  case (Cons a ops)
  obtain op pm where a: "a = (op, pm)" by (cases a)
  from Cons.prems a have "halt_active (rm_step op pm rm)" by (simp add: rm_step_halt)
  with Cons a show ?case by simp
qed

text \<open>
  Claim C4, amended. Once \<^verbatim>\<open>halt_active\<close> is true it remains true under \<^verbatim>\<open>check_order\<close>,
  \<^verbatim>\<open>on_fill\<close>, \<^verbatim>\<open>on_order_rejected\<close>, \<^verbatim>\<open>on_order_cancelled\<close>, \<^verbatim>\<open>update_market_prices\<close> and
  \<^verbatim>\<open>set_position_manager\<close>, and under every run of them; \<^verbatim>\<open>reset_daily\<close> clears it. While
  halted, all of them keep the halt reason but \<^verbatim>\<open>on_fill\<close>: a fill after which the drawdown
  from the daily high exceeds the limit replaces the reason by the drawdown reason.
\<close>

theorem halt_monotone:
  "(halt_active rm \<and> op \<noteq> RmResetDaily \<longrightarrow>
      halt_active (rm_step op pm rm)
      \<and> halt_reason (rm_step op pm rm) =
          (if is_on_fill op \<and> max_drawdown_from_high (limits rm) < drawdown (rm_step op pm rm)
           then ''Max drawdown from high exceeded: ''
                  @ double_to_string (drawdown (rm_step op pm rm))
           else halt_reason rm))
   \<and> (halt_active rm \<and> list_all (\<lambda>(op, pm). op \<noteq> RmResetDaily) ops \<longrightarrow>
      halt_active (rm_run ops rm))
   \<and> \<not> halt_active (rm_step RmResetDaily pm rm)"
  using rm_step_halt[of rm op pm] rm_step_reason[of rm op pm] rm_run_halt[of rm ops]
  by (simp add: rm_reset_daily_def)

theorem halt_monotone_witness:
  "halt_active example_loss_halted_rm
   \<and> halt_active (rm_step (OnOrderCancelled ''O3'') example_loss_pm example_loss_halted_rm)
   \<and> halt_reason (rm_step (OnOrderCancelled ''O3'') example_loss_pm example_loss_halted_rm)
       = halt_reason example_loss_halted_rm
   \<and> halt_active (rm_run [(CheckOrder example_market_order 1 2000 2001, example_loss_pm),
                          (RmOnFill example_sell_100_low, example_loss_pm)]
        example_loss_halted_rm)
   \<and> \<not> halt_active (rm_step RmResetDaily example_loss_pm example_loss_halted_rm)"
proof -
  have h: "halt_active example_loss_halted_rm" by (simp add: example_loss_halted_rm_eval)
  have l: "list_all (\<lambda>(op, pm). op \<noteq> RmResetDaily)
      [(CheckOrder example_market_order 1 2000 2001, example_loss_pm),
       (RmOnFill example_sell_100_low, example_loss_pm)]" by simp
  from halt_monotone [of example_loss_halted_rm "OnOrderCancelled ''O3''" example_loss_pm
      "[(CheckOrder example_market_order 1 2000 2001, example_loss_pm),
        (RmOnFill example_sell_100_low, example_loss_pm)]"] h l
  show ?thesis by simp
qed

section \<open>Risk manager: rate limit\<close>

lemma check_order_early:
  assumes "early_reject order rm"
  shows "\<not> res_allowed (fst (check_order order current_price now_check now_push pm rm))"
    and "snd (check_order order current_price now_check now_push pm rm)
           = rm\<lparr>orders_rejected_today := orders_rejected_today rm + 1\<rparr>"
  using assms unfolding early_reject_def
  by (elim disjE; simp add: check_order_def reject_def Let_def)+

lemma not_early_reject:
  assumes "\<not> early_reject order rm"
  shows "halt_active rm = False" and "(req_quantity order \<le> 0) = False"
    and "(req_type order = LIMIT \<and> req_price order \<le> 0) = False"
    and "(max_order_size (limits rm) < req_quantity order) = False"
  using assms by (auto simp: early_reject_def)







lemma example_first_check:
  "check_order example_market_order 1 1000 1001 PositionManager_new
     (RiskManager_new example_rate_limits)
   = (\<lparr>res_allowed = True, res_reason = ''OK'', res_reserved_capital = 10,
       res_new_exposure = 10, res_new_position_size = 10\<rparr>,
      (RiskManager_new example_rate_limits)
        \<lparr>orders_submitted_today := 1, recent_order_timestamps := [1001],
         reserved_by_order := [(''O3'', 10)]\<rparr>)"
  by (simp add: example_market_order_def RiskManager_new_def example_rate_limits_def
        example_limits_def check_order_def reject_def check_rate_limit_def Let_def
        check_position_size_limit_def check_exposure_limit_def check_daily_loss_limit_def
        total_reserved_def calculate_order_value_def)

lemma example_second_check:
  "res_allowed (fst (check_order example_market_order 1 2000 2001 PositionManager_new
     ((RiskManager_new example_rate_limits)
        \<lparr>orders_submitted_today := 1, recent_order_timestamps := [1001],
         reserved_by_order := [(''O3'', 10)]\<rparr>))) = False"
  by (simp add: example_market_order_def RiskManager_new_def example_rate_limits_def
        example_limits_def check_order_def reject_def check_rate_limit_def Let_def)



section \<open>Execution engine: order updates\<close>

lemma example_engine_eval:
  "example_engine =
     (ExecutionEngine_new (set_position_manager True (RiskManager_new example_limits))
        PositionManager_new)
       \<lparr>providers := [(''mock'', ())], default_provider := ''mock'', order_callbacks := [7]\<rparr>"
  by (simp add: example_engine_def register_order_callback_def register_provider_def
        ExecutionEngine_new_def Let_def)

lemma example_check_300:
  "check_order example_order_300 1 6 7 PositionManager_new
     (set_position_manager True (RiskManager_new example_limits))
   = (\<lparr>res_allowed = True, res_reason = ''OK'', res_reserved_capital = 300,
       res_new_exposure = 300, res_new_position_size = 300\<rparr>,
      (set_position_manager True (RiskManager_new example_limits))
        \<lparr>orders_submitted_today := 1, recent_order_timestamps := [7],
         reserved_by_order := [(''O1'', 300)]\<rparr>)"
  by (simp add: example_order_300_def RiskManager_new_def example_limits_def
        set_position_manager_def PositionManager_new_def get_quantity_def get_total_exposure_def
        smap_find_def check_order_def reject_def check_rate_limit_def Let_def
        check_position_size_limit_def check_exposure_limit_def check_daily_loss_limit_def
        total_reserved_def calculate_order_value_def)

lemma example_submitted_eval:
  "example_submitted =
     example_engine
       \<lparr>eng_risk_mgr :=
          (set_position_manager True (RiskManager_new example_limits))
            \<lparr>orders_submitted_today := 1, recent_order_timestamps := [7],
             reserved_by_order := [(''O1'', 300)]\<rparr>,
        active_orders :=
          [(''O1'', \<lparr>st_request = example_order_300, st_current_status = example_ack,
                     st_provider_name = ''mock'', st_submit_timestamp_ns = 10,
                     st_last_update_ns = 10\<rparr>)],
        stats := (stats example_engine)\<lparr>total_orders_submitted := 1, stat_active_orders := 1\<rparr>,
        order_callback_calls := [(7, example_ack)]\<rparr>"
proof -
  have p: "req_type example_order_300 = MARKET" "req_order_id example_order_300 = ''O1''"
    "req_instrument example_order_300 = ''EUR/USD''"
    by (simp_all add: example_order_300_def)
  have a: "upd_status example_ack = ACKNOWLEDGED" "upd_timestamp_ns example_ack = 10"
    by (simp_all add: example_ack_def)
  show ?thesis
    unfolding example_submitted_def submit_order_def
    by (simp add: p a example_engine_eval ExecutionEngine_new_def example_check_300 Let_def
          select_provider_for_order_def smap_find_def notify_order_callbacks_def)
qed

text \<open>
  Claim C7 as stated fails: \<^verbatim>\<open>on_order_update\<close> calls every order callback for every update
  it receives; only the update of the tracked state is skipped for an order that is not
  active. After the update \<open>FILLED\<close> has been delivered for order \<open>O1\<close> and the order has
  left the active orders, a late update for \<open>O1\<close> reaches the callback all the same.
\<close>

theorem late_update_fires_callback:
  "is_terminal (upd_status example_filled_update)
   \<and> upd_order_id example_late_update = upd_order_id example_filled_update
   \<and> smap_find ''O1'' (active_orders (on_order_update example_filled_update example_submitted))
       = None
   \<and> order_callback_calls
        (on_order_update example_late_update
           (on_order_update example_filled_update example_submitted))
       = [(7, example_ack), (7, example_filled_update), (7, example_late_update)]"
  by (simp add: example_submitted_eval example_engine_eval ExecutionEngine_new_def
        on_order_update_def update_order_state_def finalize_order_def
        notify_order_callbacks_def is_terminal_def smap_find_def Let_def
        example_filled_update_def example_late_update_def)

lemma finalize_order_active:
  "active_orders (finalize_order order_id eng) = smap_erase order_id (active_orders eng)"
proof (cases "smap_find order_id (active_orders eng)")
  case None
  then have "order_id \<notin> fst ` set (active_orders eng)" by (simp add: smap_find_None_iff)
  then have "smap_erase order_id (active_orders eng) = active_orders eng"
    by (rule smap_erase_absent)
  then show ?thesis by (simp add: finalize_order_def None)
next
  case (Some state)
  then show ?thesis by (simp add: finalize_order_def Let_def)
qed

lemma update_order_state_absent:
  "smap_find (upd_order_id update) (active_orders eng) = None \<Longrightarrow>
   update_order_state update eng = eng"
  by (simp add: update_order_state_def)

lemma update_order_state_terminal:
  assumes "smap_ok (active_orders eng)" and "is_terminal (upd_status update)"
  shows "smap_find (upd_order_id update) (active_orders (update_order_state update eng)) = None"
proof (cases "smap_find (upd_order_id update) (active_orders eng)")
  case None
  then show ?thesis by (simp add: update_order_state_def)
next
  case (Some state)
  then show ?thesis
    using assms
    by (simp add: update_order_state_def Let_def finalize_order_active smap_find_erase_same
          smap_ok_put)
qed

text \<open>
  Claim C7, amended. \<^verbatim>\<open>on_order_update\<close> invokes every registered order callback once with
  every update it receives, whether the order is active or not. What stops with the
  terminal update is the tracking: a terminal update takes the order out of the active
  orders, and an update for an order that is not active changes neither the active orders
  nor the completed ones.
\<close>

theorem on_order_update_always_notifies:
  "order_callback_calls (on_order_update update eng)
     = order_callback_calls eng @ map (\<lambda>callback. (callback, update)) (order_callbacks eng)
   \<and> (smap_ok (active_orders eng) \<and> is_terminal (upd_status update)
      \<longrightarrow> smap_find (upd_order_id update) (active_orders (on_order_update update eng)) = None)
   \<and> (smap_find (upd_order_id update) (active_orders eng) = None
      \<longrightarrow> active_orders (on_order_update update eng) = active_orders eng
        \<and> completed_orders (on_order_update update eng) = completed_orders eng)"
proof (intro conjI impI)
  have "order_callback_calls (update_order_state update eng) = order_callback_calls eng"
    and "order_callbacks (update_order_state update eng) = order_callbacks eng"
    by (simp_all add: update_order_state_def finalize_order_def smap_find_put_same Let_def
          split: option.splits)
  then show "order_callback_calls (on_order_update update eng)
     = order_callback_calls eng @ map (\<lambda>callback. (callback, update)) (order_callbacks eng)"
    by (simp add: on_order_update_def notify_order_callbacks_def)
next
  assume "smap_ok (active_orders eng) \<and> is_terminal (upd_status update)"
  then show "smap_find (upd_order_id update) (active_orders (on_order_update update eng)) = None"
    using update_order_state_terminal[of eng update]
    by (simp add: on_order_update_def notify_order_callbacks_def)
next
  assume a: "smap_find (upd_order_id update) (active_orders eng) = None"
  show "active_orders (on_order_update update eng) = active_orders eng"
    by (simp add: on_order_update_def notify_order_callbacks_def update_order_state_absent[OF a])
  show "completed_orders (on_order_update update eng) = completed_orders eng"
    by (simp add: on_order_update_def notify_order_callbacks_def update_order_state_absent[OF a])
qed

theorem on_order_update_always_notifies_witness:
  "order_callback_calls (on_order_update example_filled_update example_submitted)
     = [(7, example_ack), (7, example_filled_update)]
   \<and> smap_find ''O1'' (active_orders (on_order_update example_filled_update example_submitted))
       = None
   \<and> active_orders (on_order_update example_late_update
        (on_order_update example_filled_update example_submitted)) = []
   \<and> completed_orders (on_order_update example_late_update
        (on_order_update example_filled_update example_submitted))
       = completed_orders (on_order_update example_filled_update example_submitted)"
proof -
  let ?e1 = "on_order_update example_filled_update example_submitted"
  have ok: "smap_ok (active_orders example_submitted)
      \<and> is_terminal (upd_status example_filled_update)"
    by (simp add: example_submitted_eval smap_ok_def is_terminal_def example_filled_update_def)
  have e1: "active_orders ?e1 = []"
    by (simp add: example_submitted_eval example_engine_eval ExecutionEngine_new_def
        on_order_update_def update_order_state_def finalize_order_def
        notify_order_callbacks_def is_terminal_def smap_find_def Let_def
        example_filled_update_def)
  have gone: "smap_find (upd_order_id example_late_update) (active_orders ?e1) = None"
    by (simp add: e1 smap_find_def)
  from on_order_update_always_notifies [of example_filled_update example_submitted] ok
  have a: "order_callback_calls ?e1 = [(7, example_ack), (7, example_filled_update)]"
    and b: "smap_find ''O1'' (active_orders ?e1) = None"
    by (simp_all add: example_submitted_eval example_engine_eval ExecutionEngine_new_def
          example_filled_update_def)
  from on_order_update_always_notifies [of example_late_update ?e1] gone
  have c: "active_orders (on_order_update example_late_update ?e1) = active_orders ?e1"
    and d: "completed_orders (on_order_update example_late_update ?e1) = completed_orders ?e1"
    by simp_all
  from a b c d e1 show ?thesis by simp
qed

section \<open>Execution engine: fills\<close>


lemma engine_on_fill_active:
  "active_orders (engine_on_fill fill eng) =
     (case smap_find (fill_order_id fill) (active_orders eng) of
        None \<Rightarrow> active_orders eng
      | Some state \<Rightarrow>
          if upd_remaining_qty (st_current_status (order_after_fill fill state)) \<le> 1 / 10 ^ 8
          then smap_erase (fill_order_id fill)
                 (smap_put (fill_order_id fill) (order_after_fill fill state) (active_orders eng))
          else smap_put (fill_order_id fill) (order_after_fill fill state) (active_orders eng))"
  by (simp add: engine_on_fill_def Let_def notify_fill_callbacks_def finalize_order_active
        split: option.splits)






lemma order_after_fill_fields:
  "upd_filled_qty (st_current_status (order_after_fill fill state))
     = upd_filled_qty (st_current_status state) + fill_quantity fill"
  "upd_remaining_qty (st_current_status (order_after_fill fill state))
     = req_quantity (st_request state)
         - (upd_filled_qty (st_current_status state) + fill_quantity fill)"
  "upd_avg_fill_price (st_current_status (order_after_fill fill state))
     = (upd_avg_fill_price (st_current_status state) * upd_filled_qty (st_current_status state)
          + fill_price fill * fill_quantity fill)
       / (upd_filled_qty (st_current_status state) + fill_quantity fill)"
  "upd_status (st_current_status (order_after_fill fill state))
     = (if req_quantity (st_request state)
             - (upd_filled_qty (st_current_status state) + fill_quantity fill) \<le> 1 / 10 ^ 8
        then FILLED else PARTIALLY_FILLED)"
  "st_request (order_after_fill fill state) = st_request state"
  "upd_order_id (st_current_status (order_after_fill fill state))
     = upd_order_id (st_current_status state)"
  by (simp_all add: order_after_fill_def Let_def)







lemma example_submitted_active: "active_orders example_submitted = [(''O1'', example_tracked)]"
  by (simp add: example_submitted_eval example_tracked_def)


section \<open>Reservations\<close>

lemma free_reserved_map:
  "reserved_by_order (free_reserved order_id rm) = smap_erase order_id (reserved_by_order rm)"
proof (cases "smap_find order_id (reserved_by_order rm)")
  case None
  then have "order_id \<notin> fst ` set (reserved_by_order rm)" by (simp add: smap_find_None_iff)
  then show ?thesis by (simp add: free_reserved_def None smap_erase_absent)
next
  case (Some a)
  then show ?thesis by (simp add: free_reserved_def)
qed

lemma rm_on_fill_reserved:
  "reserved_by_order (rm_on_fill fill pm rm)
     = smap_erase (fill_order_id fill) (reserved_by_order rm)"
proof -
  have "reserved_by_order (rm_on_fill fill pm rm)
      = reserved_by_order (free_reserved (fill_order_id fill)
          (rm\<lparr>orders_filled_today := orders_filled_today rm + 1\<rparr>))"
    by (simp add: rm_on_fill_def Let_def update_pnl_def)
  then show ?thesis by (simp add: free_reserved_map)
qed

lemma check_order_reserved:
  "reserved_by_order (snd (check_order order current_price now_check now_push pm rm))
     = (if res_allowed (fst (check_order order current_price now_check now_push pm rm))
        then smap_put (req_order_id order)
               (res_reserved_capital (fst (check_order order current_price now_check now_push pm rm)))
               (reserved_by_order rm)
        else reserved_by_order rm)"
proof (cases "early_reject order rm")
  case True
  then show ?thesis by (simp add: check_order_early)
next
  case False
  show ?thesis
    by (simp add: not_early_reject[OF False] check_order_def reject_def check_rate_limit_def
          Let_def)
qed

lemma ledger_inv_step:
  assumes "ledger_inv rm ids"
  shows "ledger_inv (rm_step op pm rm) (ledger_after op pm rm ids)"
proof (cases op)
  case (CheckOrder order current_price now_check now_push)
  with assms show ?thesis
    by (simp add: ledger_inv_def check_order_reserved smap_ok_put set_fst_put)
next
  case (RmOnFill fill)
  with assms show ?thesis
    by (simp add: ledger_inv_def rm_on_fill_reserved smap_ok_erase fst_set_erase
          distinct_removeAll)
next
  case (OnOrderRejected order_id)
  with assms show ?thesis
    by (simp add: ledger_inv_def on_order_rejected_def free_reserved_map smap_ok_erase
          fst_set_erase distinct_removeAll)
next
  case (OnOrderCancelled order_id)
  with assms show ?thesis
    by (simp add: ledger_inv_def on_order_cancelled_def free_reserved_map smap_ok_erase
          fst_set_erase distinct_removeAll)
next
  case (UpdateMarketPrices prices)
  with assms show ?thesis by (simp add: ledger_inv_def update_market_prices_def Let_def)
next
  case (SetPositionManager ptr)
  with assms show ?thesis by (simp add: ledger_inv_def set_position_manager_def)
next
  case RmResetDaily
  then show ?thesis by (simp add: ledger_inv_def rm_reset_daily_def smap_ok_def)
qed

lemma ledger_inv_run:
  "ledger_inv rm ids \<Longrightarrow> ledger_inv (rm_run ops rm) (ledger ops rm ids)"
proof (induction ops arbitrary: rm ids)
  case Nil
  then show ?case by simp
next
  case (Cons a ops)
  obtain op pm where a: "a = (op, pm)" by (cases a)
  from Cons.prems have "ledger_inv (rm_step op pm rm) (ledger_after op pm rm ids)"
    by (rule ledger_inv_step)
  from Cons.IH[OF this] a show ?case by simp
qed

lemma ledger_inv_length: "ledger_inv rm ids \<Longrightarrow> length (reserved_by_order rm) = length ids"
proof -
  assume inv: "ledger_inv rm ids"
  then have d: "distinct (map fst (reserved_by_order rm))"
    by (simp add: ledger_inv_def smap_ok_distinct)
  from inv have "set (map fst (reserved_by_order rm)) = set ids" and "distinct ids"
    by (simp_all add: ledger_inv_def)
  with d have "length (map fst (reserved_by_order rm)) = length ids"
    by (metis distinct_card)
  then show ?thesis by simp
qed

lemma engine_on_fill_risk_mgr:
  "eng_risk_mgr (engine_on_fill fill eng)
     = rm_on_fill fill (pm_on_fill fill (eng_position_mgr eng)) (eng_risk_mgr eng)"
  by (simp add: engine_on_fill_def Let_def notify_fill_callbacks_def finalize_order_def
        split: option.splits)

text \<open>
  Claim C3 as stated fails in its last part: \<^verbatim>\<open>RiskManager::on_fill\<close> releases the
  reservation at the first fill, also at a partial fill that leaves the order active.
  After the order \<open>O1\<close> for 300 has been submitted and a first fill of 100 has arrived,
  there is no reservation, while the order is still active with status \<open>PARTIALLY_FILLED\<close>.
\<close>

theorem partial_fill_releases_reservation:
  "length (reserved_by_order (eng_risk_mgr example_submitted)) = 1
   \<and> length (active_orders example_submitted) = 1
   \<and> length (reserved_by_order (eng_risk_mgr (engine_on_fill example_fill_a example_submitted)))
       = 0
   \<and> length (active_orders (engine_on_fill example_fill_a example_submitted)) = 1
   \<and> map_option upd_status
        (get_order_status ''O1'' (engine_on_fill example_fill_a example_submitted))
       = Some PARTIALLY_FILLED"
proof -
  have ida: "fill_order_id example_fill_a = ''O1''" "fill_quantity example_fill_a = 100"
    by (simp_all add: example_fill_a_def)
  have tr: "upd_filled_qty (st_current_status example_tracked) = 0"
    "req_quantity (st_request example_tracked) = 300"
    by (simp_all add: example_tracked_def example_ack_def example_order_300_def)
  have r0: "reserved_by_order (eng_risk_mgr example_submitted) = [(''O1'', 300)]"
    by (simp add: example_submitted_eval)
  have r1: "reserved_by_order (eng_risk_mgr (engine_on_fill example_fill_a example_submitted)) = []"
    by (simp add: engine_on_fill_risk_mgr rm_on_fill_reserved r0 ida)
  have a1: "active_orders (engine_on_fill example_fill_a example_submitted)
      = [(''O1'', order_after_fill example_fill_a example_tracked)]"
    by (simp add: engine_on_fill_active example_submitted_active smap_find_def ida
          order_after_fill_fields tr)
  show ?thesis
    by (simp add: r0 r1 a1 example_submitted_active get_order_status_def smap_find_def
          order_after_fill_fields ida tr)
qed

text \<open>
  Claim C3, amended. In every state that a run of operations reaches from a new risk
  manager, the reservations are those of the ledger: one reservation for every order id
  that \<^verbatim>\<open>check_order\<close> has approved and for which no \<^verbatim>\<open>on_fill\<close>, \<^verbatim>\<open>on_order_rejected\<close> or
  \<^verbatim>\<open>on_order_cancelled\<close> and no \<^verbatim>\<open>reset_daily\<close> has followed, and no other. An approval
  stores the reserved capital under the order id, a denial leaves the reservations as
  they are, and each of the three notifications leaves no reservation for its order.
\<close>

theorem reservations_follow_ledger:
  "fst ` set (reserved_by_order (rm_run ops (RiskManager_new risk_limits)))
     = set (ledger ops (RiskManager_new risk_limits) [])
   \<and> length (reserved_by_order (rm_run ops (RiskManager_new risk_limits)))
       = length (ledger ops (RiskManager_new risk_limits) [])
   \<and> (res_allowed (fst (check_order order current_price now_check now_push pm rm))
      \<longrightarrow> smap_find (req_order_id order)
            (reserved_by_order (snd (check_order order current_price now_check now_push pm rm)))
          = Some (res_reserved_capital
                    (fst (check_order order current_price now_check now_push pm rm))))
   \<and> (\<not> res_allowed (fst (check_order order current_price now_check now_push pm rm))
      \<longrightarrow> reserved_by_order (snd (check_order order current_price now_check now_push pm rm))
          = reserved_by_order rm)
   \<and> (smap_ok (reserved_by_order rm)
      \<longrightarrow> smap_find (fill_order_id fill) (reserved_by_order (rm_on_fill fill pm rm)) = None
        \<and> smap_find order_id (reserved_by_order (on_order_rejected order_id rm)) = None
        \<and> smap_find order_id (reserved_by_order (on_order_cancelled order_id rm)) = None)"
proof -
  have "ledger_inv (RiskManager_new risk_limits) []"
    by (simp add: ledger_inv_def RiskManager_new_def smap_ok_def)
  then have inv: "ledger_inv (rm_run ops (RiskManager_new risk_limits))
      (ledger ops (RiskManager_new risk_limits) [])"
    by (rule ledger_inv_run)
  then have a: "fst ` set (reserved_by_order (rm_run ops (RiskManager_new risk_limits)))
     = set (ledger ops (RiskManager_new risk_limits) [])"
    by (simp add: ledger_inv_def)
  from inv have b: "length (reserved_by_order (rm_run ops (RiskManager_new risk_limits)))
       = length (ledger ops (RiskManager_new risk_limits) [])"
    by (rule ledger_inv_length)
  have c: "res_allowed (fst (check_order order current_price now_check now_push pm rm))
      \<longrightarrow> smap_find (req_order_id order)
            (reserved_by_order (snd (check_order order current_price now_check now_push pm rm)))
          = Some (res_reserved_capital
                    (fst (check_order order current_price now_check now_push pm rm)))"
    by (simp add: check_order_reserved smap_find_put_same)
  have d: "\<not> res_allowed (fst (check_order order current_price now_check now_push pm rm))
      \<longrightarrow> reserved_by_order (snd (check_order order current_price now_check now_push pm rm))
          = reserved_by_order rm"
    by (simp add: check_order_reserved)
  have e: "smap_ok (reserved_by_order rm)
      \<longrightarrow> smap_find (fill_order_id fill) (reserved_by_order (rm_on_fill fill pm rm)) = None
        \<and> smap_find order_id (reserved_by_order (on_order_rejected order_id rm)) = None
        \<and> smap_find order_id (reserved_by_order (on_order_cancelled order_id rm)) = None"
    by (simp add: rm_on_fill_reserved on_order_rejected_def on_order_cancelled_def
          free_reserved_map smap_find_erase_same)
  from a b c d e show ?thesis by blast
qed

theorem reservations_follow_ledger_witness:
  "fst ` set (reserved_by_order (rm_run example_two_checks (RiskManager_new example_rate_limits)))
     = {''O3''}
   \<and> length (reserved_by_order (rm_run example_two_checks (RiskManager_new example_rate_limits)))
       = 1
   \<and> smap_find ''O3'' (reserved_by_order (snd (check_order example_market_order 1 1000 1001
        PositionManager_new (RiskManager_new example_rate_limits)))) = Some 10
   \<and> smap_find ''O3'' (reserved_by_order (on_order_cancelled ''O3''
        (snd (check_order example_market_order 1 1000 1001
           PositionManager_new (RiskManager_new example_rate_limits))))) = None"
proof -
  let ?rm0 = "RiskManager_new example_rate_limits"
  let ?rm1 = "snd (check_order example_market_order 1 1000 1001 PositionManager_new ?rm0)"
  have oid: "req_order_id example_market_order = ''O3''"
    by (simp add: example_market_order_def)
  have lg: "ledger example_two_checks ?rm0 [] = [''O3'']"
    by (simp add: example_two_checks_def example_first_check example_second_check oid)
  have al: "res_allowed (fst (check_order example_market_order 1 1000 1001
        PositionManager_new ?rm0))"
    by (simp add: example_first_check)
  have ok: "smap_ok (reserved_by_order ?rm1)"
    by (simp add: example_first_check smap_ok_def)
  note inst0 = reservations_follow_ledger [of example_two_checks example_rate_limits
      example_market_order 1 1000 1001 PositionManager_new ?rm0 example_sell_150 "''O3''"]
  note inst1 = reservations_follow_ledger [of example_two_checks example_rate_limits
      example_market_order 1 1000 1001 PositionManager_new ?rm1 example_sell_150 "''O3''"]
  from inst0 lg
  have a: "fst ` set (reserved_by_order (rm_run example_two_checks ?rm0)) = {''O3''}"
    and b: "length (reserved_by_order (rm_run example_two_checks ?rm0)) = 1"
    by simp_all
  from inst0 al
  have c: "smap_find ''O3'' (reserved_by_order ?rm1) = Some 10"
    by (simp add: example_first_check oid)
  from inst1 ok
  have d: "smap_find ''O3'' (reserved_by_order (on_order_cancelled ''O3'' ?rm1)) = None"
    by blast
  from a b c d show ?thesis by blast
qed

end
